theory Spec2Isabelle
  imports Main
begin

chapter \<open>Vartalaap: the admin dashboard and the conversation engine\<close>

text \<open>
  The first part embeds the logic of the admin dashboard's pages and libraries (the
  sign-in callback, the reservation form, the call log's outcome tables, the operating
  hours of the settings page, the choice of the current business, the roles read from the
  access token). The second part models the per-call conversation engine that the
  specification describes: the Slot Store, the Language Detector and the Availability
  Engine. The definitions come first, the theorems after them.
\<close>

section \<open>JavaScript values and string helpers\<close>

text \<open>
  The admin dashboard is TypeScript. A JavaScript string is modelled as a \<open>string\<close>
  (the ASCII range is all the code inspects: \<open>/\<close>, \<open>.\<close>, digits, signs), a value that may
  be \<open>undefined\<close> or \<open>null\<close> as an \<open>option\<close>, and a value of unknown shape (a parsed JSON
  document, a token claim) as \<open>json\<close>, whose numbers are integers here: the code never
  reads the value of a number, only whether it is zero.
\<close>

datatype json =
    JNull
  | JBool bool
  | JNumber int
  | JString string
  | JArray "json list"
  | JObject "(string \<times> json) list"

text \<open>\<open>s.startsWith(p)\<close>.\<close>

definition startsWith :: "string \<Rightarrow> string \<Rightarrow> bool" where
  "startsWith s p = (take (length p) s = p)"

text \<open>\<open>x || d\<close> on a possibly undefined string: the empty string is falsy too.\<close>

definition str_or :: "string option \<Rightarrow> string \<Rightarrow> string" where
  "str_or x d = (case x of None \<Rightarrow> d | Some v \<Rightarrow> if v = [] then d else v)"

section \<open>lib/auth.ts: the sign-in callback\<close>

text \<open>
  The part of oidc-client-ts's \<open>User\<close> that the dashboard reads: the \<open>state\<close> handed to
  \<open>signinRedirect\<close> (cast to \<open>{ returnTo?: string } | undefined\<close>), the \<open>profile\<close> claims and
  the \<open>access_token\<close>.
\<close>

record signin_state =
  returnTo :: "string option"

record oidc_user =
  state :: "signin_state option"
  profile :: "(string \<Rightarrow> json option) option"
  access_token :: "string option"

text \<open>
  \<open>onSigninCallback(user: User | void)\<close>; the result is the argument of
  \<open>window.location.replace\<close>.
\<close>

definition onSigninCallback :: "oidc_user option \<Rightarrow> string" where
  "onSigninCallback user =
     (let st = (case user of None \<Rightarrow> None | Some u \<Rightarrow> state u);
          requested = str_or (case st of None \<Rightarrow> None | Some s \<Rightarrow> returnTo s) ''/''
      in if \<not> startsWith requested ''/'' \<or> startsWith requested ''//''
         then ''/'' else requested)"

text \<open>
  Where \<open>window.location.replace(url)\<close> goes. The browser parses \<open>url\<close> against the
  page's own address, an \<open>http\<close> or \<open>https\<close> one, with the parser of the URL Standard:
  leading and trailing C0 controls and spaces are removed, then every tab and newline; a
  leading scheme (a letter, then letters, digits, \<open>+\<close>, \<open>-\<close>, \<open>.\<close>, then \<open>:\<close>) makes the url
  absolute; otherwise, because the page's scheme is a special one, a backslash counts as a
  slash, and two of them at the start make what follows the host. In every other case the
  host stays that of the page.
\<close>

definition isC0ControlOrSpace :: "char \<Rightarrow> bool" where
  "isC0ControlOrSpace c = ((of_char c :: nat) \<le> 32)"

definition isTabOrNewline :: "char \<Rightarrow> bool" where
  "isTabOrNewline c = (c \<in> set [CHR 0x09, CHR 0x0A, CHR 0x0D])"

definition urlInput :: "string \<Rightarrow> string" where
  "urlInput url =
     filter (\<lambda>c. \<not> isTabOrNewline c)
       (rev (dropWhile isC0ControlOrSpace (rev (dropWhile isC0ControlOrSpace url))))"

definition isAsciiAlpha :: "char \<Rightarrow> bool" where
  "isAsciiAlpha c =
     (let n = (of_char c :: nat) in (65 \<le> n \<and> n \<le> 90) \<or> (97 \<le> n \<and> n \<le> 122))"

definition isSchemeChar :: "char \<Rightarrow> bool" where
  "isSchemeChar c =
     (let n = (of_char c :: nat)
      in isAsciiAlpha c \<or> (48 \<le> n \<and> n \<le> 57) \<or> c \<in> set [CHR ''+'', CHR ''-'', CHR ''.''])"

definition hasScheme :: "string \<Rightarrow> bool" where
  "hasScheme s =
     (case s of
        [] \<Rightarrow> False
      | c # cs \<Rightarrow>
          isAsciiAlpha c \<and> (case dropWhile isSchemeChar cs of [] \<Rightarrow> False | d # _ \<Rightarrow> d = CHR '':''))"

definition isSlashOrBackslash :: "char \<Rightarrow> bool" where
  "isSlashOrBackslash c = (c = CHR ''/'' \<or> c = CHR 0x5C)"

definition namesHost :: "string \<Rightarrow> bool" where
  "namesHost s =
     (case s of
        c # d # _ \<Rightarrow> isSlashOrBackslash c \<and> isSlashOrBackslash d
      | _ \<Rightarrow> False)"

text \<open>The url keeps the page's host: it has no scheme and names no host of its own.\<close>

definition staysOnOrigin :: "string \<Rightarrow> bool" where
  "staysOnOrigin url = (let s = urlInput url in \<not> hasScheme s \<and> \<not> namesHost s)"

text \<open>A sign-in whose stored state asks to return to \<open>returnTo\<close>.\<close>

definition signedInWith :: "string \<Rightarrow> oidc_user option" where
  "signedInWith r =
     Some \<lparr>state = Some \<lparr>returnTo = Some r\<rparr>, profile = None, access_token = None\<rparr>"

section \<open>pages/Reservations.tsx: the Add Reservation form\<close>

text \<open>
  \<open>parseInt(s)\<close> with no radix (ECMAScript 19.2.5): leading white space is skipped, one
  sign is read, a \<open>0x\<close>/\<open>0X\<close> prefix selects radix 16, and the longest prefix of digits of
  the radix is the value; with no digit the result is \<open>NaN\<close>, here \<open>None\<close>. The value is
  an \<open>int\<close>: the rounding of a double beyond \<open>2^53\<close> is not modelled, and of the white
  space characters only the ASCII ones are.
\<close>

definition isWhiteSpace :: "char \<Rightarrow> bool" where
  "isWhiteSpace c = (c \<in> set [CHR 0x09, CHR 0x0A, CHR 0x0B, CHR 0x0C, CHR 0x0D, CHR '' ''])"

definition digitValue :: "char \<Rightarrow> nat option" where
  "digitValue c =
     (let n = (of_char c :: nat)
      in if 48 \<le> n \<and> n \<le> 57 then Some (n - 48)
         else if 97 \<le> n \<and> n \<le> 122 then Some (n - 87)
         else if 65 \<le> n \<and> n \<le> 90 then Some (n - 55)
         else None)"

definition isDigitOf :: "nat \<Rightarrow> char \<Rightarrow> bool" where
  "isDigitOf radix c = (case digitValue c of None \<Rightarrow> False | Some d \<Rightarrow> d < radix)"

definition digitsValue :: "nat \<Rightarrow> string \<Rightarrow> nat" where
  "digitsValue radix ds = foldl (\<lambda>acc c. acc * radix + the (digitValue c)) 0 ds"

definition parseInt :: "string \<Rightarrow> int option" where
  "parseInt input =
     (let s = dropWhile isWhiteSpace input;
          neg = startsWith s ''-'';
          s1 = (if startsWith s ''-'' \<or> startsWith s ''+'' then tl s else s);
          hex = (startsWith s1 ''0x'' \<or> startsWith s1 ''0X'');
          radix = (if hex then 16 else 10);
          s2 = (if hex then drop 2 s1 else s1);
          z = takeWhile (isDigitOf radix) s2
      in if z = [] then None
         else Some ((if neg then - 1 else 1) * int (digitsValue radix z)))"

text \<open>\<open>n || 1\<close> on a number: \<open>NaN\<close> and \<open>0\<close> are falsy.\<close>

definition num_or :: "int option \<Rightarrow> int \<Rightarrow> int" where
  "num_or x d = (case x of None \<Rightarrow> d | Some n \<Rightarrow> if n = 0 then d else n)"

text \<open>The form state \<open>newReservation\<close> and its initial value (\<open>today\<close> is \<open>getLocalDateString()\<close>).\<close>

record new_reservation =
  customer_name :: string
  party_size :: int
  reservation_date :: string
  reservation_time :: string

definition initialReservation :: "string \<Rightarrow> new_reservation" where
  "initialReservation today =
     \<lparr>customer_name = '''', party_size = 2, reservation_date = today,
      reservation_time = ''19:00''\<rparr>"

text \<open>The \<open>onChange\<close> handler of the party-size input; \<open>v\<close> is \<open>e.target.value\<close>.\<close>

definition onPartySizeChange :: "new_reservation \<Rightarrow> string \<Rightarrow> new_reservation" where
  "onPartySizeChange r v = r\<lparr>party_size := num_or (parseInt v) 1\<rparr>"

text \<open>The body that \<open>handleCreateReservation\<close> passes to the create mutation.\<close>

record reservation_create =
  rc_business_id :: string
  rc_customer_name :: "string option"
  rc_party_size :: int
  rc_reservation_date :: string
  rc_reservation_time :: string

definition handleCreateReservation :: "string \<Rightarrow> new_reservation \<Rightarrow> reservation_create" where
  "handleCreateReservation businessId r =
     \<lparr>rc_business_id = businessId,
      rc_customer_name = (if customer_name r = [] then None else Some (customer_name r)),
      rc_party_size = party_size r,
      rc_reservation_date = reservation_date r,
      rc_reservation_time = reservation_time r\<rparr>"

section \<open>pages/CallLogs.tsx: call outcomes\<close>

datatype icon = CheckCircle | AlertTriangle | XCircle

definition outcomeColors :: "(string \<times> string) list" where
  "outcomeColors =
     [(''resolved'', ''bg-green-100 text-green-800 dark:bg-green-900 dark:text-green-300''),
      (''fallback'', ''bg-yellow-100 text-yellow-800 dark:bg-yellow-900 dark:text-yellow-300''),
      (''dropped'', ''bg-red-100 text-red-800 dark:bg-red-900 dark:text-red-300''),
      (''error'', ''bg-red-100 text-red-800 dark:bg-red-900 dark:text-red-300''),
      (''privacy_opt_out'', ''bg-gray-100 text-gray-800 dark:bg-gray-900 dark:text-gray-300'')]"

definition outcomeIcons :: "(string \<times> icon) list" where
  "outcomeIcons =
     [(''resolved'', CheckCircle),
      (''fallback'', AlertTriangle),
      (''dropped'', XCircle),
      (''error'', XCircle),
      (''privacy_opt_out'', XCircle)]"

definition outcomeOptions :: "string list" where
  "outcomeOptions =
     [''all'', ''resolved'', ''fallback'', ''dropped'', ''error'', ''privacy_opt_out'']"

text \<open>
  The outcome values of a finished call as the specification lists them:
  \<open>resolved|fallback|dropped|error|privacy_opt_out\<close>.
\<close>

definition spec_outcomes :: "string list" where
  "spec_outcomes = [''resolved'', ''fallback'', ''dropped'', ''error'', ''privacy_opt_out'']"

section \<open>pages/Settings.tsx: operating hours\<close>

definition DAYS :: "string list" where
  "DAYS = [''monday'', ''tuesday'', ''wednesday'', ''thursday'', ''friday'', ''saturday'',
           ''sunday'']"

text \<open>
  \<open>OperatingHoursForm\<close> is an index signature: a dictionary from a day name to an entry,
  which may lack a day (the state starts as \<open>{}\<close>).
\<close>

record day_hours =
  "open" :: string
  close :: string
  closed :: bool

type_synonym OperatingHoursForm = "string \<Rightarrow> day_hours option"

text \<open>
  What \<open>business.operating_hours[day]\<close> can hold when the page loads: a string, an object
  whose \<open>open\<close> and \<open>close\<close> may be missing, or some other value (\<open>null\<close>, a number);
  a missing day is \<open>None\<close>.
\<close>

datatype api_hours =
    ApiString string
  | ApiObject "string option" "string option"
  | ApiOther

text \<open>\<open>s.toLowerCase()\<close>, on the ASCII letters.\<close>

definition toLowerCase :: "string \<Rightarrow> string" where
  "toLowerCase s =
     map (\<lambda>c. case map_of (zip ''ABCDEFGHIJKLMNOPQRSTUVWXYZ'' ''abcdefghijklmnopqrstuvwxyz'') c of
               None \<Rightarrow> c | Some l \<Rightarrow> l) s"

text \<open>The body of the loop of the load effect: the form entry of one day.\<close>

definition parseDayHours :: "api_hours option \<Rightarrow> day_hours" where
  "parseDayHours dayHours =
     (case dayHours of
        Some (ApiString s) \<Rightarrow>
          if toLowerCase s = ''closed''
          then \<lparr>open = '''', close = '''', closed = True\<rparr>
          else \<lparr>open = ''11:00'', close = ''22:30'', closed = False\<rparr>
      | Some (ApiObject op cl) \<Rightarrow>
          \<lparr>open = (case op of None \<Rightarrow> '''' | Some v \<Rightarrow> v),
           close = (case cl of None \<Rightarrow> '''' | Some v \<Rightarrow> v),
           closed = False\<rparr>
      | _ \<Rightarrow> \<lparr>open = ''11:00'', close = ''22:30'', closed = False\<rparr>)"

text \<open>
  The load effect: \<open>for (const day of DAYS) hours[day] = ...\<close>, from
  \<open>business.operating_hours?.[day]\<close>.
\<close>

definition parseOperatingHours :: "(string \<Rightarrow> api_hours option) option \<Rightarrow> OperatingHoursForm" where
  "parseOperatingHours operating_hours =
     foldl (\<lambda>hours day.
              hours(day \<mapsto> parseDayHours
                (case operating_hours of None \<Rightarrow> None | Some oh \<Rightarrow> oh day)))
           Map.empty DAYS"

text \<open>\<open>handleSave\<close>: the \<open>hoursForApi\<close> it builds.\<close>

definition hoursForApi :: "OperatingHoursForm \<Rightarrow> (string \<Rightarrow> api_hours option)" where
  "hoursForApi operatingHours =
     foldl (\<lambda>acc day.
              case operatingHours day of
                None \<Rightarrow> acc
              | Some dayHours \<Rightarrow>
                  if closed dayHours then acc(day \<mapsto> ApiString ''closed'')
                  else acc(day \<mapsto> ApiObject (Some (open dayHours)) (Some (close dayHours))))
           Map.empty DAYS"

text \<open>
  What the form shows for a day: \<open>operatingHours[day]?.closed ?? false\<close>,
  \<open>operatingHours[day]?.open ?? ''\<close> and \<open>operatingHours[day]?.close ?? ''\<close>.
\<close>

definition closedChecked :: "OperatingHoursForm \<Rightarrow> string \<Rightarrow> bool" where
  "closedChecked operatingHours day =
     (case operatingHours day of None \<Rightarrow> False | Some h \<Rightarrow> closed h)"

definition openValue :: "OperatingHoursForm \<Rightarrow> string \<Rightarrow> string" where
  "openValue operatingHours day =
     (case operatingHours day of None \<Rightarrow> '''' | Some h \<Rightarrow> open h)"

definition closeValue :: "OperatingHoursForm \<Rightarrow> string \<Rightarrow> string" where
  "closeValue operatingHours day =
     (case operatingHours day of None \<Rightarrow> '''' | Some h \<Rightarrow> close h)"

section \<open>lib/business.ts: the current business\<close>

text \<open>
  What \<open>getBusinessId\<close> reads: the build's environment (\<open>import.meta.env\<close>), the tab's
  \<open>sessionStorage\<close>, and oidc-client-ts's \<open>User.fromStorageString\<close>, a parameter here,
  which returns the stored user or throws (\<open>None\<close>). \<open>PROD_mode\<close> is
  \<open>import.meta.env.PROD\<close>.
\<close>

record vite_env =
  VITE_KEYCLOAK_URL :: "string option"
  VITE_KEYCLOAK_REALM :: "string option"
  VITE_KEYCLOAK_CLIENT_ID :: "string option"
  VITE_BUSINESS_ID :: "string option"
  PROD_mode :: bool

type_synonym storage = "string \<Rightarrow> string option"

text \<open>The value of a string that may be missing, when it is truthy.\<close>

definition truthy :: "string option \<Rightarrow> string option" where
  "truthy x = (case x of None \<Rightarrow> None | Some v \<Rightarrow> if v = [] then None else Some v)"

definition authority :: "vite_env \<Rightarrow> string" where
  "authority env =
     (case truthy (VITE_KEYCLOAK_URL env) of
        None \<Rightarrow> ''http://localhost:8080/realms/vartalaap''
      | Some url \<Rightarrow> url @ ''/realms/'' @ str_or (VITE_KEYCLOAK_REALM env) ''vartalaap'')"

definition clientId :: "vite_env \<Rightarrow> string" where
  "clientId env = str_or (VITE_KEYCLOAK_CLIENT_ID env) ''vartalaap-web''"

definition getOidcStorageKey :: "vite_env \<Rightarrow> string" where
  "getOidcStorageKey env = ''oidc.user:'' @ authority env @ '':'' @ clientId env"

definition BUSINESS_STORAGE_KEY :: string where
  "BUSINESS_STORAGE_KEY = ''vartalaap.business_id''"

text \<open>\<open>claimsBusinessIds.filter((id) => typeof id === 'string' && id.length > 0)\<close>.\<close>

fun nonEmptyStrings :: "json list \<Rightarrow> string list" where
  "nonEmptyStrings [] = []"
| "nonEmptyStrings (JString s # js) =
     (if s = [] then nonEmptyStrings js else s # nonEmptyStrings js)"
| "nonEmptyStrings (_ # js) = nonEmptyStrings js"

text \<open>
  The whole body is inside \<open>try { ... } catch { return null }\<close>: a throwing
  \<open>fromStorageString\<close> gives \<open>null\<close>.
\<close>

definition getBusinessIdFromAuthClaims ::
    "(string \<Rightarrow> oidc_user option) \<Rightarrow> vite_env \<Rightarrow> storage \<Rightarrow> string option" where
  "getBusinessIdFromAuthClaims fromStorageString env sessionStorage =
     (case truthy (sessionStorage (getOidcStorageKey env)) of
        None \<Rightarrow> None
      | Some oidcStorage \<Rightarrow>
          (case fromStorageString oidcStorage of
             None \<Rightarrow> None
           | Some user \<Rightarrow>
               (case (case profile user of None \<Rightarrow> None | Some p \<Rightarrow> p ''business_ids'') of
                  Some (JArray claimsBusinessIds) \<Rightarrow>
                    if claimsBusinessIds = [] then None
                    else (case nonEmptyStrings claimsBusinessIds of
                        [] \<Rightarrow> None
                      | first # others \<Rightarrow>
                          (case truthy (sessionStorage BUSINESS_STORAGE_KEY) of
                             None \<Rightarrow> Some first
                           | Some selected \<Rightarrow>
                               if selected \<in> set (first # others)
                               then Some selected else Some first))
                | _ \<Rightarrow> None)))"

datatype js_error = Error string

definition getBusinessId ::
    "(string \<Rightarrow> oidc_user option) \<Rightarrow> vite_env \<Rightarrow> storage \<Rightarrow> js_error + string" where
  "getBusinessId fromStorageString env sessionStorage =
     (case truthy (getBusinessIdFromAuthClaims fromStorageString env sessionStorage) of
        Some claimBusinessId \<Rightarrow> Inr claimBusinessId
      | None \<Rightarrow>
          (case truthy (VITE_BUSINESS_ID env) of
             None \<Rightarrow>
               (if PROD_mode env
                then Inl (Error (''[Vartalaap] VITE_BUSINESS_ID not configured. '' @
                                 ''Set this in your .env file before deploying to production.''))
                else Inr ''default'')
           | Some businessId \<Rightarrow> Inr businessId))"

text \<open>
  The entries of the token's \<open>business_ids\<close> claim that are non-empty strings, read off
  the stored user directly; empty when there is no stored user (no item, or an empty one)
  or no such claim.
\<close>

definition claimBusinessIds ::
    "(string \<Rightarrow> oidc_user option) \<Rightarrow> vite_env \<Rightarrow> storage \<Rightarrow> string list" where
  "claimBusinessIds fromStorageString env sessionStorage =
     (case truthy (sessionStorage (getOidcStorageKey env)) of
        None \<Rightarrow> []
      | Some raw \<Rightarrow>
          (case fromStorageString raw of
             None \<Rightarrow> []
           | Some user \<Rightarrow>
               (case profile user of
                  None \<Rightarrow> []
                | Some p \<Rightarrow>
                    (case p ''business_ids'' of
                       Some (JArray ids) \<Rightarrow> nonEmptyStrings ids
                     | _ \<Rightarrow> []))))"

subsection \<open>A stored user for the examples\<close>

text \<open>
  A stored sign-in whose token carries \<open>business_ids: ["b1", 7, "", "b2"]\<close>, the storage
  that holds it under the default key together with a selected business, and a build
  environment with no Keycloak setting.
\<close>

definition example_user :: oidc_user where
  "example_user =
     \<lparr>state = None,
      profile = Some [''business_ids'' \<mapsto>
                        JArray [JString ''b1'', JNumber 7, JString '''', JString ''b2'']],
      access_token = None\<rparr>"

definition example_fromStorageString :: "string \<Rightarrow> oidc_user option" where
  "example_fromStorageString raw = (if raw = ''stored-user'' then Some example_user else None)"

definition example_env :: "string option \<Rightarrow> bool \<Rightarrow> vite_env" where
  "example_env businessId production =
     \<lparr>VITE_KEYCLOAK_URL = None, VITE_KEYCLOAK_REALM = None, VITE_KEYCLOAK_CLIENT_ID = None,
      VITE_BUSINESS_ID = businessId, PROD_mode = production\<rparr>"

definition example_storage :: "string option \<Rightarrow> string option \<Rightarrow> storage" where
  "example_storage user selected =
     (\<lambda>key. if key = ''oidc.user:http://localhost:8080/realms/vartalaap:vartalaap-web''
            then user
            else if key = ''vartalaap.business_id'' then selected
            else None)"

section \<open>components/ProtectedRoute.tsx: roles from the access token\<close>

text \<open>\<open>s.split(sep)\<close> for a one-character separator: never empty, \<open>''.split('.')\<close> is \<open>['']\<close>.\<close>

fun split :: "char \<Rightarrow> string \<Rightarrow> string list" where
  "split sep [] = [[]]"
| "split sep (c # cs) =
     (if c = sep then [] # split sep cs
      else (case split sep cs of
              [] \<Rightarrow> [[c]]
            | part # parts \<Rightarrow> (c # part) # parts))"

text \<open>\<open>s.replace(/a/g, b)\<close> for single characters.\<close>

definition replaceAll :: "char \<Rightarrow> char \<Rightarrow> string \<Rightarrow> string" where
  "replaceAll a b s = map (\<lambda>c. if c = a then b else c) s"

text \<open>
  \<open>atob\<close> is the forgiving-base64 decode of the HTML standard: ASCII white space is
  removed; if the length is then a multiple of 4, one or two trailing \<open>=\<close> are removed; a
  length of 1 modulo 4, or a character outside the base64 alphabet, is an
  \<open>InvalidCharacterError\<close> (\<open>None\<close>); the characters are then read six bits at a time and
  the left-over bits of the last group are dropped. The result is a binary string: one
  character per byte.
\<close>

definition isAsciiWhitespace :: "char \<Rightarrow> bool" where
  "isAsciiWhitespace c = (c \<in> set [CHR 0x09, CHR 0x0A, CHR 0x0C, CHR 0x0D, CHR '' ''])"

definition base64Value :: "char \<Rightarrow> nat option" where
  "base64Value c =
     (let n = (of_char c :: nat)
      in if 65 \<le> n \<and> n \<le> 90 then Some (n - 65)
         else if 97 \<le> n \<and> n \<le> 122 then Some (n - 71)
         else if 48 \<le> n \<and> n \<le> 57 then Some (n + 4)
         else if c = CHR ''+'' then Some 62
         else if c = CHR ''/'' then Some 63
         else None)"

fun sextetsToBytes :: "nat list \<Rightarrow> nat list" where
  "sextetsToBytes (a # b # c # d # rest) =
     (let n = ((a * 64 + b) * 64 + c) * 64 + d
      in n div 65536 # (n div 256) mod 256 # n mod 256 # sextetsToBytes rest)"
| "sextetsToBytes [a, b, c] =
     (let n = ((a * 64 + b) * 64 + c) div 4
      in [n div 256, n mod 256])"
| "sextetsToBytes [a, b] = [(a * 64 + b) div 16]"
| "sextetsToBytes _ = []"

definition stripPadding :: "string \<Rightarrow> string" where
  "stripPadding d =
     (if length d mod 4 = 0 then
        (if 2 \<le> length d \<and> drop (length d - 2) d = ''=='' then take (length d - 2) d
         else if 1 \<le> length d \<and> drop (length d - 1) d = ''='' then take (length d - 1) d
         else d)
      else d)"

definition atob :: "string \<Rightarrow> string option" where
  "atob data =
     (let d = stripPadding (filter (\<lambda>c. \<not> isAsciiWhitespace c) data)
      in if length d mod 4 = 1 then None
         else if list_ex (\<lambda>c. base64Value c = None) d then None
         else Some (map char_of (sextetsToBytes (map (\<lambda>c. the (base64Value c)) d))))"

text \<open>
  \<open>'%' + ('00' + c.charCodeAt(0).toString(16)).slice(-2)\<close> for each character of the
  binary string, joined.
\<close>

definition hexDigit :: "nat \<Rightarrow> char" where
  "hexDigit n = ''0123456789abcdef'' ! (n mod 16)"

definition percentEncode :: "string \<Rightarrow> string" where
  "percentEncode s =
     concat (map (\<lambda>c. [CHR ''%'', hexDigit ((of_char c :: nat) div 16),
                         hexDigit ((of_char c :: nat) mod 16)]) s)"

text \<open>
  \<open>decodeURIComponent\<close>: every \<open>%XX\<close> is replaced by its byte, and the bytes must be
  well-formed UTF-8 (no over-long form, no surrogate, nothing above U+10FFFF); a
  malformed escape or sequence is a \<open>URIError\<close> (\<open>None\<close>). The resulting text is kept
  as its UTF-8 bytes.
\<close>

fun percentDecode :: "string \<Rightarrow> nat list option" where
  "percentDecode [] = Some []"
| "percentDecode (c # cs) =
     (if c = CHR ''%'' then
        (case cs of
           h1 # h2 # rest \<Rightarrow>
             (if isDigitOf 16 h1 \<and> isDigitOf 16 h2
              then map_option ((#) (the (digitValue h1) * 16 + the (digitValue h2)))
                     (percentDecode rest)
              else None)
         | _ \<Rightarrow> None)
      else map_option ((#) (of_char c)) (percentDecode cs))"

definition continuation :: "nat \<Rightarrow> bool" where
  "continuation b = (128 \<le> b \<and> b \<le> 191)"

fun utf8_wellformed :: "nat list \<Rightarrow> bool" where
  "utf8_wellformed [] = True"
| "utf8_wellformed (b # bs) =
     (if b < 128 then utf8_wellformed bs
      else if 194 \<le> b \<and> b \<le> 223 then
        (case bs of
           c1 # rest \<Rightarrow> continuation c1 \<and> utf8_wellformed rest
         | _ \<Rightarrow> False)
      else if 224 \<le> b \<and> b \<le> 239 then
        (case bs of
           c1 # c2 # rest \<Rightarrow>
             continuation c1 \<and> continuation c2
             \<and> (b = 224 \<longrightarrow> 160 \<le> c1) \<and> (b = 237 \<longrightarrow> c1 \<le> 159)
             \<and> utf8_wellformed rest
         | _ \<Rightarrow> False)
      else if 240 \<le> b \<and> b \<le> 244 then
        (case bs of
           c1 # c2 # c3 # rest \<Rightarrow>
             continuation c1 \<and> continuation c2 \<and> continuation c3
             \<and> (b = 240 \<longrightarrow> 144 \<le> c1) \<and> (b = 244 \<longrightarrow> c1 \<le> 143)
             \<and> utf8_wellformed rest
         | _ \<Rightarrow> False)
      else False)"

definition decodeURIComponent :: "string \<Rightarrow> string option" where
  "decodeURIComponent s =
     (case percentDecode s of
        None \<Rightarrow> None
      | Some bytes \<Rightarrow> if utf8_wellformed bytes then Some (map char_of bytes) else None)"

text \<open>
  The steps of \<open>decodeJwtPayload\<close> between \<open>split\<close> and \<open>JSON.parse\<close>: base64url to
  base64, padding, \<open>atob\<close>, and the UTF-8 decoding through \<open>decodeURIComponent\<close>.
\<close>

definition decodePayloadText :: "string \<Rightarrow> string option" where
  "decodePayloadText part =
     (let payload = replaceAll (CHR ''_'') (CHR ''/'') (replaceAll (CHR ''-'') (CHR ''+'') part);
          padding = (4 - length payload mod 4) mod 4
      in case atob (payload @ replicate padding (CHR ''='')) of
           None \<Rightarrow> None
         | Some binary \<Rightarrow> decodeURIComponent (percentEncode binary))"

text \<open>
  \<open>decodeJwtPayload\<close>. \<open>JSON.parse\<close> is a parameter: it returns the parsed value or
  throws (\<open>None\<close>). The whole body is inside \<open>try { ... } catch { return null }\<close>, so
  every throw is the result \<open>null\<close>, which is \<open>None\<close> here, as is a payload that parses
  to \<open>null\<close>.
\<close>

definition decodeJwtPayload :: "(string \<Rightarrow> json option) \<Rightarrow> string \<Rightarrow> json option" where
  "decodeJwtPayload JSON_parse token =
     (let parts = split (CHR ''.'') token
      in if length parts \<noteq> 3 then None
         else (case decodePayloadText (parts ! 1) of
                 None \<Rightarrow> None
               | Some decoded \<Rightarrow>
                   (case JSON_parse decoded of
                      None \<Rightarrow> None
                    | Some JNull \<Rightarrow> None
                    | Some payload \<Rightarrow> Some payload)))"

text \<open>Truthiness of a value, and \<open>value.key\<close> on a value that is not \<open>null\<close>.\<close>

fun js_truthy :: "json \<Rightarrow> bool" where
  "js_truthy JNull = False"
| "js_truthy (JBool b) = b"
| "js_truthy (JNumber n) = (n \<noteq> 0)"
| "js_truthy (JString s) = (s \<noteq> [])"
| "js_truthy (JArray _) = True"
| "js_truthy (JObject _) = True"

fun getProperty :: "json \<Rightarrow> string \<Rightarrow> json option" where
  "getProperty (JObject members) key = map_of members key"
| "getProperty _ key = None"

text \<open>
  \<open>getRolesFromAccessToken\<close>. The result is typed \<open>string[]\<close>, but it is whatever the
  token holds under \<open>realm_access.roles\<close>, so it is a \<open>json\<close> here; \<open>[]\<close> is \<open>JArray []\<close>.
\<close>

definition getRolesFromAccessToken :: "(string \<Rightarrow> json option) \<Rightarrow> string option \<Rightarrow> json" where
  "getRolesFromAccessToken JSON_parse accessToken =
     (case truthy accessToken of
        None \<Rightarrow> JArray []
      | Some token \<Rightarrow>
          (case decodeJwtPayload JSON_parse token of
             None \<Rightarrow> JArray []
           | Some payload \<Rightarrow>
               if \<not> js_truthy payload then JArray []
               else (case getProperty payload ''realm_access'' of
                       None \<Rightarrow> JArray []
                     | Some realmAccess \<Rightarrow>
                         (case getProperty realmAccess ''roles'' of
                            None \<Rightarrow> JArray []
                          | Some roles \<Rightarrow> if js_truthy roles then roles else JArray []))))"

text \<open>
  \<open>userRoles.includes(role)\<close>: membership for an array, a substring test for a string,
  and a \<open>TypeError\<close> (\<open>None\<close>) for a value with no \<open>includes\<close> method.
\<close>

fun isSubstring :: "string \<Rightarrow> string \<Rightarrow> bool" where
  "isSubstring sub [] = (sub = [])"
| "isSubstring sub (c # cs) = (startsWith (c # cs) sub \<or> isSubstring sub cs)"

fun js_includes :: "json \<Rightarrow> string \<Rightarrow> bool option" where
  "js_includes (JArray xs) role = Some (JString role \<in> set xs)"
| "js_includes (JString s) role = Some (isSubstring role s)"
| "js_includes _ role = None"

text \<open>\<open>roles.some((role) => userRoles.includes(role))\<close>, left to right.\<close>

fun someRoleIncluded :: "string list \<Rightarrow> json \<Rightarrow> bool option" where
  "someRoleIncluded [] userRoles = Some False"
| "someRoleIncluded (role # roles) userRoles =
     (case js_includes userRoles role of
        None \<Rightarrow> None
      | Some True \<Rightarrow> Some True
      | Some False \<Rightarrow> someRoleIncluded roles userRoles)"

text \<open>
  What \<open>useAuth()\<close> gives the component, and what the component renders. The effect that
  starts \<open>signinRedirect\<close> for a visitor who is not signed in is not part of the rendering.
\<close>

record auth_context =
  isLoading :: bool
  isAuthenticated :: bool
  error :: "string option"
  user :: "oidc_user option"

datatype element =
    LoadingSpinner
  | AuthenticationError string
  | RedirectingToLogin
  | Navigate string
  | Outlet
  | TypeErrorThrown

definition ProtectedRoute ::
    "(string \<Rightarrow> json option) \<Rightarrow> string list option \<Rightarrow> auth_context \<Rightarrow> element" where
  "ProtectedRoute JSON_parse roles auth =
     (if isLoading auth then LoadingSpinner
      else (case error auth of
              Some message \<Rightarrow> AuthenticationError message
            | None \<Rightarrow>
                if \<not> isAuthenticated auth then RedirectingToLogin
                else (case roles of
                        None \<Rightarrow> Outlet
                      | Some [] \<Rightarrow> Outlet
                      | Some required \<Rightarrow>
                          (case someRoleIncluded required
                                  (getRolesFromAccessToken JSON_parse
                                     (case user auth of None \<Rightarrow> None
                                      | Some u \<Rightarrow> access_token u)) of
                             None \<Rightarrow> TypeErrorThrown
                           | Some True \<Rightarrow> Outlet
                           | Some False \<Rightarrow> Navigate ''/unauthorized''))))"

text \<open>A \<open>JSON.parse\<close> for the examples: it knows the empty object only.\<close>

definition example_JSON_parse :: "string \<Rightarrow> json option" where
  "example_JSON_parse s = (if s = ''{}'' then Some (JObject []) else None)"

section \<open>The conversation engine: Slot Store\<close>

text \<open>
  The per-call conversation engine (Slot Store, Language Detector, Availability Engine) is
  not among the sources of the dashboard; the definitions of this section and the next two
  follow the specification's sections 3 and 4.
\<close>

text \<open>
  Modelled from the spec: the fields of a SlotSet (section 3); the Slot Store's code is
  missing.
\<close>

datatype slot_field = PartySize | Date | Time | CustomerName | SpecialRequests

text \<open>
  Modelled from the spec: the value of a slot, an integer for the party size and a text for
  the other fields; the Slot Store's code is missing.
\<close>

datatype slot_value = Number int | Text string

text \<open>
  Modelled from the spec: SlotSet (section 3), every field nullable until set. An
  extraction result is a partial field-set of the same shape, \<open>None\<close> for a field the
  utterance does not mention. The Slot Store's code is missing.
\<close>

record SlotSet =
  slotPartySize :: "int option"
  slotDate :: "string option"
  slotTime :: "string option"
  slotCustomerName :: "string option"
  slotSpecialRequests :: "string option"

text \<open>
  Modelled from the spec: reading one field of a SlotSet or of an extraction result; the
  Slot Store's code is missing.
\<close>

fun slot :: "slot_field \<Rightarrow> SlotSet \<Rightarrow> slot_value option" where
  "slot PartySize s = map_option Number (slotPartySize s)"
| "slot Date s = map_option Text (slotDate s)"
| "slot Time s = map_option Text (slotTime s)"
| "slot CustomerName s = map_option Text (slotCustomerName s)"
| "slot SpecialRequests s = map_option Text (slotSpecialRequests s)"

text \<open>
  Modelled from the spec: the entry of a changeset (section 4.2), a field that was set for
  the first time or corrected; the Slot Store's code is missing.
\<close>

datatype change = FirstSet | Corrected

text \<open>
  Modelled from the spec: one field of \<open>applyExtraction\<close> (section 4.2). A field present in
  the extraction is stored, a field absent from it keeps its value; the Slot Store's code
  is missing.
\<close>

definition applyField :: "'a option \<Rightarrow> 'a option \<Rightarrow> 'a option" where
  "applyField existing extracted =
     (case extracted of None \<Rightarrow> existing | Some v \<Rightarrow> Some v)"

text \<open>
  Modelled from the spec: the changeset entry of one field (section 4.2): set when there
  was no value, corrected when the new value differs from the stored one; the Slot Store's
  code is missing.
\<close>

definition fieldChange :: "slot_field \<Rightarrow> 'a option \<Rightarrow> 'a option \<Rightarrow> (slot_field \<times> change) list" where
  "fieldChange f existing extracted =
     (case extracted of
        None \<Rightarrow> []
      | Some v \<Rightarrow>
          (case existing of
             None \<Rightarrow> [(f, FirstSet)]
           | Some w \<Rightarrow> if w \<noteq> v then [(f, Corrected)] else []))"

text \<open>
  Modelled from the spec: \<open>applyExtraction(fields) \<rightarrow> changeset\<close> (section 4.2), each field
  applied on its own; the result is the new SlotSet and the changeset. The Slot Store's
  code is missing.
\<close>

definition applyExtraction :: "SlotSet \<Rightarrow> SlotSet \<Rightarrow> SlotSet \<times> (slot_field \<times> change) list" where
  "applyExtraction s extracted =
     (\<lparr>slotPartySize = applyField (slotPartySize s) (slotPartySize extracted),
       slotDate = applyField (slotDate s) (slotDate extracted),
       slotTime = applyField (slotTime s) (slotTime extracted),
       slotCustomerName = applyField (slotCustomerName s) (slotCustomerName extracted),
       slotSpecialRequests = applyField (slotSpecialRequests s) (slotSpecialRequests extracted)\<rparr>,
      fieldChange PartySize (slotPartySize s) (slotPartySize extracted) @
      fieldChange Date (slotDate s) (slotDate extracted) @
      fieldChange Time (slotTime s) (slotTime extracted) @
      fieldChange CustomerName (slotCustomerName s) (slotCustomerName extracted) @
      fieldChange SpecialRequests (slotSpecialRequests s) (slotSpecialRequests extracted))"

text \<open>
  Modelled from the spec: a sequence of extraction results applied one after the other to
  the SlotSet of a session (section 8, first property); the Slot Store's code is missing.
\<close>

definition applyExtractions :: "SlotSet \<Rightarrow> SlotSet list \<Rightarrow> SlotSet" where
  "applyExtractions s extractions =
     foldl (\<lambda>acc extracted. fst (applyExtraction acc extracted)) s extractions"

text \<open>
  Modelled from the spec: the values that a sequence of extraction results asserts for one
  field, in order; the Slot Store's code is missing.
\<close>

definition asserted :: "slot_field \<Rightarrow> SlotSet list \<Rightarrow> slot_value list" where
  "asserted f extractions = List.map_filter (slot f) extractions"

text \<open>Modelled from the spec: a SlotSet with no field set, to write examples with.\<close>

definition emptySlots :: SlotSet where
  "emptySlots =
     \<lparr>slotPartySize = None, slotDate = None, slotTime = None, slotCustomerName = None,
      slotSpecialRequests = None\<rparr>"

section \<open>The conversation engine: Language Detector and filler utterances\<close>

text \<open>
  Modelled from the spec: the labels of the Language Detector (section 4.1); the detector's
  code is missing.
\<close>

datatype language = Hindi | English | Hinglish

text \<open>
  Modelled from the spec: the tokens of an utterance, its words between spaces; the
  specification does not say how an utterance is cut into tokens. The detector's code is
  missing.
\<close>

definition tokens :: "string \<Rightarrow> string list" where
  "tokens utterance = filter (\<lambda>w. w \<noteq> []) (split (CHR '' '') utterance)"

text \<open>
  Modelled from the spec: an utterance composed only of filler tokens (section 4.1); the
  stoplist is fixed but not listed by the specification, so it is a parameter. The
  detector's code is missing.
\<close>

definition fillerOnly :: "string list \<Rightarrow> string \<Rightarrow> bool" where
  "fillerOnly stoplist utterance = list_all (\<lambda>w. w \<in> set stoplist) (tokens utterance)"

text \<open>
  Modelled from the spec: \<open>detect(utteranceText, priorLabel, priorConfidence) \<rightarrow> (label,
  confidence)\<close> (section 4.1). A filler-only utterance returns the prior label and
  confidence; how other utterances are classified is not specified, so the classifier is a
  parameter. The confidence is in hundredths. The detector's code is missing.
\<close>

definition detect ::
    "string list \<Rightarrow> (string \<Rightarrow> language option \<Rightarrow> nat \<Rightarrow> language \<times> nat) \<Rightarrow>
     string \<Rightarrow> language option \<Rightarrow> nat \<Rightarrow> language option \<times> nat" where
  "detect stoplist classify utteranceText priorLabel priorConfidence =
     (if fillerOnly stoplist utteranceText then (priorLabel, priorConfidence)
      else (case classify utteranceText priorLabel priorConfidence of
              (label, confidence) \<Rightarrow> (Some label, confidence)))"

text \<open>
  Modelled from the spec: what a session keeps of the language and the slots (sections 3
  and 4.5): the SlotSet, the language preference, the confidence of the last detection,
  and whether the detector is observing for a reversal. The orchestrator's code is missing.
\<close>

record session =
  slots :: SlotSet
  languagePreference :: "language option"
  languageConfidence :: nat
  observing :: bool

text \<open>
  Modelled from the spec: the confidence bands (section 4.1): above 0.85 the label is
  adopted; from 0.70 to 0.85 it is adopted and the next turn is observed; below 0.70 the
  previous label is kept, Hindi when there is none. The orchestrator's code is missing.
\<close>

definition adoptLabel :: "language option \<Rightarrow> language option \<times> nat \<Rightarrow> language option \<times> bool" where
  "adoptLabel previous detected =
     (case detected of
        (label, confidence) \<Rightarrow>
          if confidence > 85 then (label, False)
          else if confidence \<ge> 70 then (label, True)
          else (case previous of None \<Rightarrow> (Some Hindi, False) | Some p \<Rightarrow> (Some p, False)))"

text \<open>
  Modelled from the spec: the processing of one finalized utterance (sections 4.2, 4.4 and
  4.5). A filler-only utterance starts no turn and never reaches extraction; any other
  utterance is classified, the bands are applied, and the extracted fields are stored. The
  extraction step is external, so it is a parameter. The orchestrator's code is missing.
\<close>

definition processUtterance ::
    "string list \<Rightarrow> (string \<Rightarrow> language option \<Rightarrow> nat \<Rightarrow> language \<times> nat) \<Rightarrow>
     (string \<Rightarrow> SlotSet) \<Rightarrow> session \<Rightarrow> string \<Rightarrow> session" where
  "processUtterance stoplist classify extract s utterance =
     (if fillerOnly stoplist utterance then s
      else (let detected = detect stoplist classify utterance (languagePreference s)
                             (languageConfidence s);
                adopted = adoptLabel (languagePreference s) detected
            in \<lparr>slots = fst (applyExtraction (slots s) (extract utterance)),
                languagePreference = fst adopted,
                languageConfidence = snd detected,
                observing = snd adopted\<rparr>))"

text \<open>
  Modelled from the spec: examples of filler tokens, the acknowledgements and hesitation
  sounds that the requirements document names.
\<close>

definition example_stoplist :: "string list" where
  "example_stoplist = [''hmm'', ''okay'', ''achha'', ''uh'', ''haan'', ''hello'']"

section \<open>The conversation engine: Availability Engine\<close>

text \<open>
  Modelled from the spec: the days of the week by which operating hours are configured
  (section 3); the Availability Engine's code is missing.
\<close>

datatype weekday = Monday | Tuesday | Wednesday | Thursday | Friday | Saturday | Sunday

text \<open>
  Modelled from the spec: a date is the number of its day, counted from a Monday, and a
  time of day is in minutes since midnight; this is the weekday of a date. The
  Availability Engine's code is missing.
\<close>

definition weekdayOf :: "nat \<Rightarrow> weekday" where
  "weekdayOf day =
     [Monday, Tuesday, Wednesday, Thursday, Friday, Saturday, Sunday] ! (day mod 7)"

text \<open>
  Modelled from the spec: BusinessRuleSet (section 3). The operating hours of a weekday
  are its opening and closing time, or \<open>None\<close> for a weekday marked closed; a peak window
  is its first and last minute. The Availability Engine's code is missing.
\<close>

record BusinessRuleSet =
  operatingHours :: "weekday \<Rightarrow> (nat \<times> nat) option"
  closedDates :: "nat list"
  totalSeats :: nat
  diningWindow :: nat
  buffer :: nat
  minAdvanceBookingMinutes :: nat
  maxAdvanceBookingDays :: nat
  maxPhonePartySize :: nat
  peakWindows :: "(nat \<times> nat) list"
  peakMaxPartySize :: nat

text \<open>
  Modelled from the spec: an existing confirmed booking of the target date, by its time
  and party size (section 3, the snapshot of an AvailabilityResult); the Availability
  Engine's code is missing.
\<close>

record booking =
  bookingTime :: nat
  bookingPartySize :: nat

text \<open>
  Modelled from the spec: the rejection codes of an AvailabilityResult (section 3); the
  Availability Engine's code is missing.
\<close>

datatype rejection =
    RejectedClosed
  | RejectedOutsideHours
  | RejectedTooSoon
  | RejectedPartyTooLarge
  | RejectedCapacity

text \<open>
  Modelled from the spec: AvailabilityResult (section 3): available, or a rejection with
  its suggested alternative times; the Availability Engine's code is missing.
\<close>

datatype AvailabilityResult = Available | Rejected rejection "nat list"

text \<open>
  Modelled from the spec: check 1 (section 4.3): the date is not a closed date and its
  weekday is not marked closed. The Availability Engine's code is missing.
\<close>

definition openOn :: "BusinessRuleSet \<Rightarrow> nat \<Rightarrow> bool" where
  "openOn rules date =
     (date \<notin> set (closedDates rules) \<and> operatingHours rules (weekdayOf date) \<noteq> None)"

text \<open>
  Modelled from the spec: check 2 (section 4.3): the requested time is within the
  operating window of the weekday. The Availability Engine's code is missing.
\<close>

definition withinHours :: "BusinessRuleSet \<Rightarrow> nat \<Rightarrow> nat \<Rightarrow> bool" where
  "withinHours rules date time =
     (case operatingHours rules (weekdayOf date) of
        None \<Rightarrow> False
      | Some (opens, closes) \<Rightarrow> opens \<le> time \<and> time \<le> closes)"

text \<open>
  Modelled from the spec: check 3 (section 4.3): the requested start is at least
  \<open>minAdvanceBookingMinutes\<close> and at most \<open>maxAdvanceBookingDays\<close> after \<open>now\<close>, the
  current time in minutes on the same calendar. The Availability Engine's code is missing.
\<close>

definition withinAdvance :: "BusinessRuleSet \<Rightarrow> nat \<Rightarrow> nat \<Rightarrow> nat \<Rightarrow> bool" where
  "withinAdvance rules now date time =
     (let start = date * 1440 + time
      in now + minAdvanceBookingMinutes rules \<le> start
         \<and> start \<le> now + maxAdvanceBookingDays rules * 1440)"

text \<open>
  Modelled from the spec: the requested time falls in a configured peak window (section
  4.3, check 4); the Availability Engine's code is missing.
\<close>

definition inPeak :: "BusinessRuleSet \<Rightarrow> nat \<Rightarrow> bool" where
  "inPeak rules time = list_ex (\<lambda>(starts, ends). starts \<le> time \<and> time \<le> ends) (peakWindows rules)"

text \<open>
  Modelled from the spec: check 4 (section 4.3): the party size is at most
  \<open>maxPhonePartySize\<close> and, in a peak window, also at most \<open>peakMaxPartySize\<close>. The
  Availability Engine's code is missing.
\<close>

definition partyAllowed :: "BusinessRuleSet \<Rightarrow> nat \<Rightarrow> nat \<Rightarrow> bool" where
  "partyAllowed rules time partySize =
     (partySize \<le> maxPhonePartySize rules
      \<and> (if inPeak rules time then partySize \<le> peakMaxPartySize rules else True))"

text \<open>
  Modelled from the spec: the interval \<open>[time, time + diningWindow + buffer)\<close> of an
  existing booking overlaps that of a request (section 4.3, check 5); the Availability
  Engine's code is missing.
\<close>

definition overlaps :: "BusinessRuleSet \<Rightarrow> nat \<Rightarrow> booking \<Rightarrow> bool" where
  "overlaps rules time b =
     (bookingTime b < time + diningWindow rules + buffer rules
      \<and> time < bookingTime b + diningWindow rules + buffer rules)"

text \<open>
  Modelled from the spec: the sum of the party sizes of the existing bookings that overlap
  a request (section 4.3, check 5); the Availability Engine's code is missing.
\<close>

definition seatsTaken :: "BusinessRuleSet \<Rightarrow> booking list \<Rightarrow> nat \<Rightarrow> nat" where
  "seatsTaken rules existingBookings time =
     sum_list (map bookingPartySize (filter (overlaps rules time) existingBookings))"

text \<open>
  Modelled from the spec: check 5 (section 4.3): the overlapping bookings plus the new
  request do not exceed \<open>totalSeats\<close>. The Availability Engine's code is missing.
\<close>

definition fits :: "BusinessRuleSet \<Rightarrow> booking list \<Rightarrow> nat \<Rightarrow> nat \<Rightarrow> bool" where
  "fits rules existingBookings time partySize =
     (seatsTaken rules existingBookings time + partySize \<le> totalSeats rules)"

text \<open>
  Modelled from the spec: the nearest earlier slot of the same day, in steps of 30
  minutes from the requested time, that passes check 5 (section 4.3); the Availability
  Engine's code is missing.
\<close>

fun nearestEarlier :: "BusinessRuleSet \<Rightarrow> booking list \<Rightarrow> nat \<Rightarrow> nat \<Rightarrow> nat option" where
  "nearestEarlier rules existingBookings partySize time =
     (if time < 30 then None
      else if fits rules existingBookings (time - 30) partySize then Some (time - 30)
      else nearestEarlier rules existingBookings partySize (time - 30))"

text \<open>
  Modelled from the spec: the nearest later slot of the same day, in steps of 30 minutes
  from the requested time, that passes check 5 (section 4.3); the Availability Engine's
  code is missing.
\<close>

function nearestLater :: "BusinessRuleSet \<Rightarrow> booking list \<Rightarrow> nat \<Rightarrow> nat \<Rightarrow> nat option" where
  "nearestLater rules existingBookings partySize time =
     (if 1440 \<le> time + 30 then None
      else if fits rules existingBookings (time + 30) partySize then Some (time + 30)
      else nearestLater rules existingBookings partySize (time + 30))"
  by pat_completeness auto
termination
  by (relation "measure (\<lambda>(rules, existingBookings, partySize, time). 1440 - time)") auto

text \<open>
  Modelled from the spec: the suggestions of a capacity rejection (section 4.3): up to two
  times, the nearest earlier and the nearest later slot that pass check 5. The
  Availability Engine's code is missing.
\<close>

definition suggestions :: "BusinessRuleSet \<Rightarrow> booking list \<Rightarrow> nat \<Rightarrow> nat \<Rightarrow> nat list" where
  "suggestions rules existingBookings time partySize =
     (case nearestEarlier rules existingBookings partySize time of None \<Rightarrow> [] | Some s \<Rightarrow> [s]) @
     (case nearestLater rules existingBookings partySize time of None \<Rightarrow> [] | Some s \<Rightarrow> [s])"

text \<open>
  Modelled from the spec: the checks are taken in order and the first failing one decides
  (section 4.3); the Availability Engine's code is missing.
\<close>

fun firstFailure :: "(bool \<times> rejection) list \<Rightarrow> rejection option" where
  "firstFailure [] = None"
| "firstFailure ((passes, code) # checks) = (if passes then firstFailure checks else Some code)"

text \<open>
  Modelled from the spec: \<open>check(rules, existingBookings, date, time, partySize) \<rightarrow>
  AvailabilityResult\<close> (section 4.3). Check 3 reads the current time, \<open>now\<close>, which is
  not among the arguments of the contract, so it is a parameter of its own. The bookings
  are returned next to the result, as the engine leaves them. The Availability Engine's
  code is missing.
\<close>

definition check ::
    "nat \<Rightarrow> BusinessRuleSet \<Rightarrow> booking list \<Rightarrow> nat \<Rightarrow> nat \<Rightarrow> nat \<Rightarrow>
     AvailabilityResult \<times> booking list" where
  "check now rules existingBookings date time partySize =
     ((case firstFailure
              [(openOn rules date, RejectedClosed),
               (withinHours rules date time, RejectedOutsideHours),
               (withinAdvance rules now date time, RejectedTooSoon),
               (partyAllowed rules time partySize, RejectedPartyTooLarge),
               (fits rules existingBookings time partySize, RejectedCapacity)] of
         None \<Rightarrow> Available
       | Some RejectedCapacity \<Rightarrow>
           Rejected RejectedCapacity (suggestions rules existingBookings time partySize)
       | Some code \<Rightarrow> Rejected code []),
      existingBookings)"

text \<open>
  Modelled from the spec: the rules of the scenarios (section 8): closed on Monday, open
  Tuesday to Sunday from 11:00 to 22:30, 40 seats, a dining window of 90 and a buffer of
  15 minutes; the other bounds are the defaults of the requirements document (30 minutes
  and 30 days in advance, 10 by phone, 6 in the peak window from 19:00 to 21:00).
\<close>

definition scenarioRules :: BusinessRuleSet where
  "scenarioRules =
     \<lparr>operatingHours = (\<lambda>d. if d = Monday then None else Some (660, 1350)),
      closedDates = [],
      totalSeats = 40,
      diningWindow = 90,
      buffer = 15,
      minAdvanceBookingMinutes = 30,
      maxAdvanceBookingDays = 30,
      maxPhonePartySize = 10,
      peakWindows = [(1140, 1260)],
      peakMaxPartySize = 6\<rparr>"

text \<open>
  Modelled from the spec: existing bookings that sum to 38 seats at 20:00 (section 8, the
  capacity scenario).
\<close>

definition scenarioBookings :: "booking list" where
  "scenarioBookings =
     [\<lparr>bookingTime = 1200, bookingPartySize = 10\<rparr>,
      \<lparr>bookingTime = 1200, bookingPartySize = 10\<rparr>,
      \<lparr>bookingTime = 1200, bookingPartySize = 10\<rparr>,
      \<lparr>bookingTime = 1200, bookingPartySize = 8\<rparr>]"

section \<open>Theorems\<close>

subsection \<open>The sign-in callback\<close>

text \<open>
  What the check does guarantee: the target starts with \<open>/\<close> and not with \<open>//\<close>; a
  requested \<open>returnTo\<close> that does not start with a single \<open>/\<close> is replaced by \<open>/\<close>, and
  one that does is kept.
\<close>

lemma onSigninCallback_prefix:
  "startsWith (onSigninCallback signedIn) ''/''
   \<and> \<not> startsWith (onSigninCallback signedIn) ''//''"
  by (auto simp: onSigninCallback_def Let_def str_or_def startsWith_def
           split: option.splits)

lemma onSigninCallback_replaced:
  "\<not> startsWith r ''/'' \<or> startsWith r ''//'' \<Longrightarrow> onSigninCallback (signedInWith r) = ''/''"
  by (auto simp: onSigninCallback_def signedInWith_def Let_def str_or_def startsWith_def)

lemma onSigninCallback_kept:
  "startsWith r ''/'' \<Longrightarrow> \<not> startsWith r ''//'' \<Longrightarrow> onSigninCallback (signedInWith r) = r"
  by (auto simp: onSigninCallback_def signedInWith_def Let_def str_or_def startsWith_def)

lemma onSigninCallback_examples:
  "onSigninCallback (signedInWith ''https://evil.example/x'') = ''/''"
  "onSigninCallback (signedInWith ''//evil.example/x'') = ''/''"
  "onSigninCallback (signedInWith ''/reservations?day=1'') = ''/reservations?day=1''"
  "staysOnOrigin ''/reservations?day=1''"
  "\<not> staysOnOrigin ''//evil.example/x''"
  "\<not> staysOnOrigin ''https://evil.example/x''"
  by (simp_all add: onSigninCallback_def signedInWith_def Let_def str_or_def startsWith_def
        staysOnOrigin_def urlInput_def isC0ControlOrSpace_def isTabOrNewline_def hasScheme_def
        isAsciiAlpha_def isSchemeChar_def namesHost_def isSlashOrBackslash_def)

text \<open>
  For a \<open>returnTo\<close> with no control character, no space and no backslash, the target
  keeps the visitor on the page's own host.
\<close>

lemma dropWhile_none: "\<forall>c \<in> set xs. \<not> P c \<Longrightarrow> dropWhile P xs = xs"
  by (cases xs) auto

lemma urlInput_plain:
  assumes "\<forall>c \<in> set r. \<not> isC0ControlOrSpace c"
  shows "urlInput r = r"
proof -
  have a: "dropWhile isC0ControlOrSpace r = r"
    using assms by (rule dropWhile_none)
  have "\<forall>c \<in> set (rev r). \<not> isC0ControlOrSpace c"
    using assms by simp
  then have b: "dropWhile isC0ControlOrSpace (rev r) = rev r"
    by (rule dropWhile_none)
  have "\<forall>c \<in> set r. \<not> isTabOrNewline c"
    using assms by (auto simp: isTabOrNewline_def isC0ControlOrSpace_def)
  then have c: "filter (\<lambda>c. \<not> isTabOrNewline c) r = r"
    by (simp add: filter_id_conv)
  show ?thesis by (simp add: urlInput_def a b c)
qed

lemma onSigninCallback_stays:
  assumes "\<forall>c \<in> set r. \<not> isC0ControlOrSpace c \<and> c \<noteq> CHR 0x5C"
  shows "staysOnOrigin (onSigninCallback (signedInWith r))"
proof -
  define t where "t = onSigninCallback (signedInWith r)"
  have t: "t = ''/'' \<or> t = r"
    by (auto simp: t_def onSigninCallback_def signedInWith_def Let_def str_or_def)
  have slash: "\<not> isC0ControlOrSpace (CHR ''/'')"
    by (simp add: isC0ControlOrSpace_def)
  have plain: "\<forall>c \<in> set t. \<not> isC0ControlOrSpace c \<and> c \<noteq> CHR 0x5C"
  proof (cases "t = r")
    case True
    with assms show ?thesis by (simp only:)
  next
    case False
    with t have "t = ''/''" by blast
    then show ?thesis using slash by simp
  qed
  then have u: "urlInput t = t" by (simp add: urlInput_plain)
  from onSigninCallback_prefix [of "signedInWith r"] obtain rest where
    shape: "t = CHR ''/'' # rest" and single: "\<not> startsWith t ''//''"
    unfolding t_def [symmetric] by (cases t) (auto simp: startsWith_def)
  have "\<not> hasScheme t"
    by (simp add: shape hasScheme_def isAsciiAlpha_def)
  moreover have "\<not> namesHost t"
  proof (cases rest)
    case Nil
    then show ?thesis by (simp add: shape namesHost_def)
  next
    case (Cons d ds)
    with single shape have "d \<noteq> CHR ''/''" by (simp add: startsWith_def)
    moreover from plain shape Cons have "d \<noteq> CHR 0x5C" by simp
    ultimately show ?thesis by (simp add: shape Cons namesHost_def isSlashOrBackslash_def)
  qed
  ultimately have "staysOnOrigin t" by (simp add: staysOnOrigin_def u)
  then show ?thesis by (simp add: t_def)
qed



subsection \<open>Call outcomes\<close>

text \<open>
  C4. The filter options of the Call Logs page are \<open>all\<close> followed by the five outcomes of
  the specification, and the colour map and the icon map each have exactly those five keys.
\<close>

theorem outcome_maps_cover_spec:
  "outcomeOptions = ''all'' # spec_outcomes
   \<and> map fst outcomeColors = spec_outcomes
   \<and> map fst outcomeIcons = spec_outcomes
   \<and> dom (map_of outcomeColors) = set spec_outcomes
   \<and> dom (map_of outcomeIcons) = set spec_outcomes
   \<and> distinct spec_outcomes \<and> length spec_outcomes = 5"
  by (simp add: outcomeOptions_def outcomeColors_def outcomeIcons_def spec_outcomes_def
                dom_map_of_conv_image_fst)

subsection \<open>The party size of a created reservation\<close>

text \<open>
  C3. The claim is that every party size submitted by the Add Reservation form is at
  least 1. It is not: \<open>parseInt\<close> reads a sign, a negative number is truthy, so the
  fallback \<open>|| 1\<close> does not apply, and typing \<open>-5\<close> submits a party size of \<open>-5\<close>.
\<close>

theorem party_size_negative_input:
  "rc_party_size (handleCreateReservation b (onPartySizeChange (initialReservation d) ''-5''))
     = - 5"
  by (simp add: handleCreateReservation_def onPartySizeChange_def initialReservation_def
                num_or_def parseInt_def Let_def startsWith_def isWhiteSpace_def
                isDigitOf_def digitValue_def digitsValue_def)

text \<open>
  The fallback does its work for every input that does not parse to a negative number: an
  empty or non-numeric input and a zero give 1, and a positive number is kept.
\<close>

lemma party_size_fallback:
  "party_size (onPartySizeChange r '''') = 1"
  "party_size (onPartySizeChange r ''abc'') = 1"
  "party_size (onPartySizeChange r ''0'') = 1"
  "party_size (onPartySizeChange r ''12'') = 12"
  by (simp_all add: onPartySizeChange_def num_or_def parseInt_def Let_def startsWith_def
                    isWhiteSpace_def isDigitOf_def digitValue_def digitsValue_def)

lemma party_size_at_least_one:
  "(case parseInt v of None \<Rightarrow> True | Some n \<Rightarrow> 0 \<le> n) \<Longrightarrow>
     1 \<le> party_size (onPartySizeChange r v)"
  by (auto simp: onPartySizeChange_def num_or_def split: option.splits)

subsection \<open>Operating hours: save, then load\<close>

lemma fold_upd_each:
  "foldl (\<lambda>hours d. hours(d \<mapsto> g d)) acc ds day =
     (if day \<in> set ds then Some (g day) else acc day)"
  by (induction ds arbitrary: acc) auto

lemma parseOperatingHours_day:
  "parseOperatingHours oh day =
     (if day \<in> set DAYS
      then Some (parseDayHours (case oh of None \<Rightarrow> None | Some m \<Rightarrow> m day))
      else None)"
  unfolding parseOperatingHours_def fold_upd_each by simp

lemma hoursForApi_fold:
  "foldl (\<lambda>acc day.
            case h day of
              None \<Rightarrow> acc
            | Some dayHours \<Rightarrow>
                if closed dayHours then acc(day \<mapsto> ApiString ''closed'')
                else acc(day \<mapsto> ApiObject (Some (open dayHours)) (Some (close dayHours))))
         acc ds day =
     (if day \<in> set ds
      then (case h day of
              None \<Rightarrow> acc day
            | Some f \<Rightarrow> Some (if closed f then ApiString ''closed''
                               else ApiObject (Some (open f)) (Some (close f))))
      else acc day)"
  by (induction ds arbitrary: acc) (auto split: option.splits)

lemma hoursForApi_day:
  "hoursForApi h day =
     (if day \<in> set DAYS
      then (case h day of
              None \<Rightarrow> None
            | Some f \<Rightarrow> Some (if closed f then ApiString ''closed''
                               else ApiObject (Some (open f)) (Some (close f))))
      else None)"
  unfolding hoursForApi_def hoursForApi_fold by simp

lemma toLowerCase_closed: "toLowerCase ''closed'' = ''closed''"
  by (simp add: toLowerCase_def)

text \<open>
  C5, as stated, fails. For the empty form state \<open>{}\<close>, the initial state of the page,
  \<open>handleSave\<close> sends no day at all, and loading that gives every day the default
  \<open>11:00\<close> to \<open>22:30\<close>, where the form showed an open day with empty times.
\<close>

theorem hours_round_trip_empty_form:
  "openValue (parseOperatingHours (Some (hoursForApi Map.empty))) ''monday'' = ''11:00''
   \<and> openValue Map.empty ''monday'' = ''''
   \<and> closeValue (parseOperatingHours (Some (hoursForApi Map.empty))) ''monday'' = ''22:30''
   \<and> closeValue Map.empty ''monday'' = ''''
   \<and> closedChecked Map.empty ''monday'' = False"
  by (simp add: parseOperatingHours_def hoursForApi_def DAYS_def parseDayHours_def
                openValue_def closeValue_def closedChecked_def)

text \<open>
  C5, amended. For every form state and every weekday, saving and then loading restores
  the closed flag the form shows; for a weekday that has an entry in the form state and is
  not marked closed it also restores the open and the close time. Every weekday has an
  entry in a form state that the load logic produced.
\<close>

theorem hours_round_trip:
  assumes "day \<in> set DAYS"
  shows "closedChecked (parseOperatingHours (Some (hoursForApi h))) day = closedChecked h day
         \<and> (h day \<noteq> None \<and> \<not> closedChecked h day \<longrightarrow>
              openValue (parseOperatingHours (Some (hoursForApi h))) day = openValue h day
              \<and> closeValue (parseOperatingHours (Some (hoursForApi h))) day = closeValue h day)
         \<and> parseOperatingHours oh day \<noteq> None"
  using assms
  by (auto simp: parseOperatingHours_day hoursForApi_day closedChecked_def openValue_def
                 closeValue_def parseDayHours_def toLowerCase_closed
           split: option.splits)

theorem hours_round_trip_witness:
  "''tuesday'' \<in> set DAYS
   \<and> closedChecked (parseOperatingHours (Some (hoursForApi
        [''monday'' \<mapsto> \<lparr>open = ''09:00'', close = ''17:00'', closed = True\<rparr>,
         ''tuesday'' \<mapsto> \<lparr>open = ''10:30'', close = ''23:00'', closed = False\<rparr>]))) ''tuesday''
     = False
   \<and> openValue (parseOperatingHours (Some (hoursForApi
        [''monday'' \<mapsto> \<lparr>open = ''09:00'', close = ''17:00'', closed = True\<rparr>,
         ''tuesday'' \<mapsto> \<lparr>open = ''10:30'', close = ''23:00'', closed = False\<rparr>]))) ''tuesday''
     = ''10:30''
   \<and> closeValue (parseOperatingHours (Some (hoursForApi
        [''monday'' \<mapsto> \<lparr>open = ''09:00'', close = ''17:00'', closed = True\<rparr>,
         ''tuesday'' \<mapsto> \<lparr>open = ''10:30'', close = ''23:00'', closed = False\<rparr>]))) ''tuesday''
     = ''23:00''"
proof -
  let ?h = "[''monday'' \<mapsto> \<lparr>open = ''09:00'', close = ''17:00'', closed = True\<rparr>,
             ''tuesday'' \<mapsto> \<lparr>open = ''10:30'', close = ''23:00'', closed = False\<rparr>]"
  have d: "''tuesday'' \<in> set DAYS" by (simp add: DAYS_def)
  have e: "?h ''tuesday'' \<noteq> None \<and> \<not> closedChecked ?h ''tuesday''"
    by (simp add: closedChecked_def)
  from hours_round_trip [OF d, of ?h] e d show ?thesis
    by (simp add: closedChecked_def openValue_def closeValue_def)
qed


subsection \<open>The current business\<close>

lemma nonEmptyStrings_nonempty: "[] \<notin> set (nonEmptyStrings js)"
  by (induction js rule: nonEmptyStrings.induct) auto

lemma claimBusinessIds_nonempty: "[] \<notin> set (claimBusinessIds f env st)"
  by (simp add: claimBusinessIds_def nonEmptyStrings_nonempty
           split: option.splits json.splits)

lemma claims_usable:
  assumes "claimBusinessIds f env st = first # others"
  shows "getBusinessIdFromAuthClaims f env st =
           Some (case truthy (st BUSINESS_STORAGE_KEY) of
                   None \<Rightarrow> first
                 | Some selected \<Rightarrow> if selected \<in> set (first # others) then selected else first)"
  using assms
  by (auto simp: claimBusinessIds_def getBusinessIdFromAuthClaims_def
           split: option.splits json.splits list.splits)

lemma claims_unusable:
  assumes "claimBusinessIds f env st = []"
  shows "getBusinessIdFromAuthClaims f env st = None"
  using assms
  by (auto simp: claimBusinessIds_def getBusinessIdFromAuthClaims_def
           split: option.splits json.splits list.splits)

text \<open>
  C9. \<open>getBusinessId\<close> never returns the empty string. When the token's
  \<open>business_ids\<close> claim has usable entries (non-empty strings), the business selected in
  the session is returned if it is one of them and the first entry otherwise, so the result
  is always one of the entries. With no usable entry the result is \<open>VITE_BUSINESS_ID\<close>
  when that is set, and otherwise an error in a production build and \<open>default\<close> in a
  development build.
\<close>

theorem getBusinessId_tenant_scoped:
  "getBusinessId f env st \<noteq> Inr ''''
   \<and> (\<forall>selected. st BUSINESS_STORAGE_KEY = Some selected
          \<and> selected \<in> set (claimBusinessIds f env st)
        \<longrightarrow> getBusinessId f env st = Inr selected)
   \<and> (\<forall>first others. claimBusinessIds f env st = first # others
          \<and> (\<forall>selected. st BUSINESS_STORAGE_KEY = Some selected
                \<longrightarrow> selected \<notin> set (first # others))
        \<longrightarrow> getBusinessId f env st = Inr first)
   \<and> (claimBusinessIds f env st \<noteq> []
        \<longrightarrow> getBusinessId f env st \<in> Inr ` set (claimBusinessIds f env st))
   \<and> (\<forall>businessId. claimBusinessIds f env st = []
          \<and> VITE_BUSINESS_ID env = Some businessId \<and> businessId \<noteq> []
        \<longrightarrow> getBusinessId f env st = Inr businessId)
   \<and> (claimBusinessIds f env st = []
          \<and> (VITE_BUSINESS_ID env = None \<or> VITE_BUSINESS_ID env = Some [])
        \<longrightarrow> (if PROD_mode env then \<exists>msg. getBusinessId f env st = Inl (Error msg)
             else getBusinessId f env st = Inr ''default''))"
proof (cases "claimBusinessIds f env st")
  case Nil
  then have c: "getBusinessIdFromAuthClaims f env st = None"
    by (rule claims_unusable)
  show ?thesis
    using Nil
    by (auto simp: getBusinessId_def c truthy_def split: option.splits)
next
  case (Cons first others)
  then have c: "getBusinessIdFromAuthClaims f env st =
           Some (case truthy (st BUSINESS_STORAGE_KEY) of
                   None \<Rightarrow> first
                 | Some selected \<Rightarrow> if selected \<in> set (first # others) then selected else first)"
    by (rule claims_usable)
  have ne: "[] \<notin> set (first # others)"
    using claimBusinessIds_nonempty [of f env st] Cons by simp
  then have f: "first \<noteq> []" by auto
  show ?thesis
    using Cons ne f
    by (auto simp: getBusinessId_def c truthy_def split: option.splits)
qed

lemma example_key:
  "getOidcStorageKey (example_env b p) =
     ''oidc.user:http://localhost:8080/realms/vartalaap:vartalaap-web''"
  by (simp add: getOidcStorageKey_def authority_def clientId_def example_env_def
                truthy_def str_or_def)

lemma example_claims:
  "claimBusinessIds example_fromStorageString (example_env b p)
     (example_storage (Some ''stored-user'') sel) = [''b1'', ''b2'']"
  by (simp add: claimBusinessIds_def example_key example_storage_def truthy_def
                example_fromStorageString_def example_user_def)

lemma example_no_claims:
  "claimBusinessIds example_fromStorageString (example_env b p)
     (example_storage None sel) = []"
  by (simp add: claimBusinessIds_def example_key example_storage_def truthy_def)

lemma example_env_fields:
  "VITE_BUSINESS_ID (example_env b p) = b" "PROD_mode (example_env b p) = p"
  by (simp_all add: example_env_def)

lemma example_selected:
  "example_storage u sel BUSINESS_STORAGE_KEY = sel"
  by (simp add: example_storage_def BUSINESS_STORAGE_KEY_def)

theorem getBusinessId_tenant_scoped_witness:
  "getBusinessId example_fromStorageString (example_env (Some ''env-id'') True)
       (example_storage (Some ''stored-user'') (Some ''b2'')) = Inr ''b2''
   \<and> getBusinessId example_fromStorageString (example_env (Some ''env-id'') True)
       (example_storage (Some ''stored-user'') (Some ''b9'')) = Inr ''b1''
   \<and> getBusinessId example_fromStorageString (example_env (Some ''env-id'') True)
       (example_storage None (Some ''b2'')) = Inr ''env-id''
   \<and> isl (getBusinessId example_fromStorageString (example_env None True)
       (example_storage None (Some ''b2'')))
   \<and> getBusinessId example_fromStorageString (example_env None False)
       (example_storage None (Some ''b2'')) = Inr ''default''"
proof -
  let ?f = example_fromStorageString
  have 1: "getBusinessId ?f (example_env (Some ''env-id'') True)
             (example_storage (Some ''stored-user'') (Some ''b2'')) = Inr ''b2''"
    using getBusinessId_tenant_scoped [of ?f "example_env (Some ''env-id'') True"
            "example_storage (Some ''stored-user'') (Some ''b2'')"]
    by (simp add: example_claims example_selected)
  have 2: "getBusinessId ?f (example_env (Some ''env-id'') True)
             (example_storage (Some ''stored-user'') (Some ''b9'')) = Inr ''b1''"
    using getBusinessId_tenant_scoped [of ?f "example_env (Some ''env-id'') True"
            "example_storage (Some ''stored-user'') (Some ''b9'')"]
    by (simp add: example_claims example_selected)
  have 3: "getBusinessId ?f (example_env (Some ''env-id'') True)
             (example_storage None (Some ''b2'')) = Inr ''env-id''"
    using getBusinessId_tenant_scoped [of ?f "example_env (Some ''env-id'') True"
            "example_storage None (Some ''b2'')"]
    by (simp add: example_no_claims example_env_fields)
  have 4: "isl (getBusinessId ?f (example_env None True)
             (example_storage None (Some ''b2'')))"
    using getBusinessId_tenant_scoped [of ?f "example_env None True"
            "example_storage None (Some ''b2'')"]
    by (auto simp: example_no_claims example_env_fields)
  have 5: "getBusinessId ?f (example_env None False)
             (example_storage None (Some ''b2'')) = Inr ''default''"
    using getBusinessId_tenant_scoped [of ?f "example_env None False"
            "example_storage None (Some ''b2'')"]
    by (simp add: example_no_claims example_env_fields)
  from 1 2 3 4 5 show ?thesis by simp
qed


subsection \<open>Roles from a malformed access token\<close>

lemma split_nonempty: "split sep s \<noteq> []"
  by (induction s) (auto split: list.splits)

lemma split_parts_no_sep: "p \<in> set (split sep s) \<Longrightarrow> sep \<notin> set p"
  by (induction s arbitrary: p) (auto split: if_splits list.splits)

lemma split_single: "split sep s = [p] \<Longrightarrow> s = p"
  by (induction s arbitrary: p) (auto split: if_splits list.splits simp: split_nonempty)

lemma split_cons:
  "split sep s = p # q # ps \<Longrightarrow> \<exists>rest. s = p @ sep # rest \<and> split sep rest = q # ps"
  by (induction s arbitrary: p) (auto split: if_splits list.splits)

lemma split_three:
  assumes "split (CHR ''.'') token = [h, p, s]"
  shows "token = h @ ''.'' @ p @ ''.'' @ s \<and> CHR ''.'' \<notin> set h \<union> set p \<union> set s"
proof -
  from split_cons [OF assms] obtain r1 where
    r1: "token = h @ CHR ''.'' # r1" "split (CHR ''.'') r1 = [p, s]" by auto
  from split_cons [OF r1(2)] obtain r2 where
    r2: "r1 = p @ CHR ''.'' # r2" "split (CHR ''.'') r2 = [s]" by auto
  from split_single [OF r2(2)] have "r2 = s" .
  moreover have "CHR ''.'' \<notin> set h \<union> set p \<union> set s"
    using split_parts_no_sep [of _ "CHR ''.''" token] assms by auto
  ultimately show ?thesis using r1 r2 by simp
qed

lemma someRoleIncluded_empty: "someRoleIncluded required (JArray []) = Some False"
  by (induction required) auto

lemma decodeJwtPayload_Some:
  assumes "decodeJwtPayload JSON_parse token = Some v"
  shows "\<exists>h p s decoded.
           token = h @ ''.'' @ p @ ''.'' @ s \<and> CHR ''.'' \<notin> set h \<union> set p \<union> set s
           \<and> decodePayloadText p = Some decoded \<and> JSON_parse decoded = Some v \<and> v \<noteq> JNull"
proof -
  let ?parts = "split (CHR ''.'') token"
  from assms have len: "length ?parts = 3"
    by (auto simp: decodeJwtPayload_def Let_def split: if_splits)
  then obtain h p s where parts: "?parts = [h, p, s]"
    by (auto simp: length_Suc_conv numeral_3_eq_3)
  from assms parts obtain decoded where
    d: "decodePayloadText p = Some decoded" "JSON_parse decoded = Some v" "v \<noteq> JNull"
    by (auto simp: decodeJwtPayload_def Let_def split: option.splits json.splits)
  from split_three [OF parts] d show ?thesis by blast
qed

lemma getRoles_malformed:
  "decodeJwtPayload JSON_parse token = None \<Longrightarrow>
     getRolesFromAccessToken JSON_parse (Some token) = JArray []"
  by (simp add: getRolesFromAccessToken_def truthy_def)

text \<open>
  The decoding steps on a real payload: \<open>e30\<close> is the base64url of \<open>{}\<close>.
\<close>

lemma char_of_braces: "char_of (123::nat) = CHR ''{''" "char_of (125::nat) = CHR ''}''"
  by code_simp+

lemma atob_example: "atob ''e30='' = Some ''{}''"
  by (simp add: atob_def isAsciiWhitespace_def stripPadding_def base64Value_def Let_def
                char_of_braces)

lemma percentEncode_example: "percentEncode ''{}'' = ''%7b%7d''"
  by (simp add: percentEncode_def hexDigit_def)

lemma decodeURIComponent_example: "decodeURIComponent ''%7b%7d'' = Some ''{}''"
  by (simp add: decodeURIComponent_def isDigitOf_def digitValue_def char_of_braces)

lemma decodePayloadText_example: "decodePayloadText ''e30'' = Some ''{}''"
  by (simp add: decodePayloadText_def replaceAll_def atob_example percentEncode_example
                decodeURIComponent_example)

lemma decodeJwtPayload_example:
  "decodeJwtPayload example_JSON_parse ''x.e30.y'' = Some (JObject [])"
  by (simp add: decodeJwtPayload_def decodePayloadText_example example_JSON_parse_def)

text \<open>
  C10. \<open>decodeJwtPayload\<close> is total: every failure inside it is caught and gives
  \<open>null\<close>. It returns \<open>null\<close> for every token that is not three dot-separated parts
  whose middle part decodes (base64url, then UTF-8) to a text that \<open>JSON.parse\<close> accepts.
  So \<open>getRolesFromAccessToken\<close> returns the empty list for a missing and for a malformed
  token, and a route that requires roles never renders its content for such a token: once
  the visitor is signed in it redirects to \<open>/unauthorized\<close>.
\<close>

theorem malformed_token_has_no_roles:
  "((\<nexists>h p s decoded v.
        token = h @ ''.'' @ p @ ''.'' @ s \<and> CHR ''.'' \<notin> set h \<union> set p \<union> set s
        \<and> decodePayloadText p = Some decoded \<and> JSON_parse decoded = Some v \<and> v \<noteq> JNull)
     \<longrightarrow> decodeJwtPayload JSON_parse token = None)
   \<and> getRolesFromAccessToken JSON_parse None = JArray []
   \<and> (decodeJwtPayload JSON_parse token = None
        \<longrightarrow> getRolesFromAccessToken JSON_parse (Some token) = JArray [])
   \<and> (required \<noteq> []
        \<and> (user auth = None \<or> (\<exists>u. user auth = Some u \<and> (access_token u = None
              \<or> (\<exists>t. access_token u = Some t \<and> decodeJwtPayload JSON_parse t = None))))
        \<longrightarrow> ProtectedRoute JSON_parse (Some required) auth \<noteq> Outlet
            \<and> (\<not> isLoading auth \<and> error auth = None \<and> isAuthenticated auth
                 \<longrightarrow> ProtectedRoute JSON_parse (Some required) auth = Navigate ''/unauthorized''))"
proof -
  have a: "(\<nexists>h p s decoded v.
        token = h @ ''.'' @ p @ ''.'' @ s \<and> CHR ''.'' \<notin> set h \<union> set p \<union> set s
        \<and> decodePayloadText p = Some decoded \<and> JSON_parse decoded = Some v \<and> v \<noteq> JNull)
     \<longrightarrow> decodeJwtPayload JSON_parse token = None"
  proof (cases "decodeJwtPayload JSON_parse token")
    case None
    then show ?thesis by simp
  next
    case (Some v)
    from decodeJwtPayload_Some [OF Some] show ?thesis by blast
  qed
  have b: "getRolesFromAccessToken JSON_parse None = JArray []"
    by (simp add: getRolesFromAccessToken_def truthy_def)
  have c: "decodeJwtPayload JSON_parse token = None
        \<longrightarrow> getRolesFromAccessToken JSON_parse (Some token) = JArray []"
    by (simp add: getRoles_malformed)
  have d: "ProtectedRoute JSON_parse (Some required) auth \<noteq> Outlet
            \<and> (\<not> isLoading auth \<and> error auth = None \<and> isAuthenticated auth
                 \<longrightarrow> ProtectedRoute JSON_parse (Some required) auth = Navigate ''/unauthorized'')"
    if req: "required \<noteq> []"
      and tok: "user auth = None \<or> (\<exists>u. user auth = Some u \<and> (access_token u = None
              \<or> (\<exists>t. access_token u = Some t \<and> decodeJwtPayload JSON_parse t = None)))"
  proof -
    have roles: "getRolesFromAccessToken JSON_parse
                   (case user auth of None \<Rightarrow> None | Some u \<Rightarrow> access_token u) = JArray []"
      using tok b getRoles_malformed by (auto split: option.splits)
    from req obtain r rs where "required = r # rs" by (cases required) auto
    then show ?thesis
      by (simp add: ProtectedRoute_def roles someRoleIncluded_empty split: option.splits)
  qed
  from a b c d show ?thesis by blast
qed

theorem malformed_token_has_no_roles_witness:
  "decodeJwtPayload example_JSON_parse ''a.b.c'' = None
   \<and> getRolesFromAccessToken example_JSON_parse (Some ''a.b.c'') = JArray []
   \<and> ProtectedRoute example_JSON_parse (Some [''admin''])
        \<lparr>isLoading = False, isAuthenticated = True, error = None,
         user = Some \<lparr>state = None, profile = None, access_token = Some ''a.b.c''\<rparr>\<rparr>
       = Navigate ''/unauthorized''
   \<and> ProtectedRoute example_JSON_parse (Some [''admin''])
        \<lparr>isLoading = False, isAuthenticated = True, error = None,
         user = Some \<lparr>state = None, profile = None, access_token = Some ''not-a-jwt''\<rparr>\<rparr>
       = Navigate ''/unauthorized''"
proof -
  let ?auth = "\<lambda>t. \<lparr>isLoading = False, isAuthenticated = True, error = None,
         user = Some \<lparr>state = None, profile = None, access_token = Some t\<rparr>\<rparr>"
  have 1: "decodeJwtPayload example_JSON_parse ''a.b.c'' = None"
    by code_simp
  have 2: "decodeJwtPayload example_JSON_parse ''not-a-jwt'' = None"
    by code_simp
  from malformed_token_has_no_roles [of "''a.b.c''" example_JSON_parse "[''admin'']" "?auth ''a.b.c''"] 1
  have 3: "getRolesFromAccessToken example_JSON_parse (Some ''a.b.c'') = JArray []
           \<and> ProtectedRoute example_JSON_parse (Some [''admin'']) (?auth ''a.b.c'')
               = Navigate ''/unauthorized''"
    by simp
  from malformed_token_has_no_roles [of "''not-a-jwt''" example_JSON_parse "[''admin'']"
         "?auth ''not-a-jwt''"] 2
  have 4: "ProtectedRoute example_JSON_parse (Some [''admin'']) (?auth ''not-a-jwt'')
               = Navigate ''/unauthorized''"
    by simp
  from 1 3 4 show ?thesis by simp
qed


subsection \<open>Slot Store: the last assertion wins\<close>

lemma slot_applyExtraction:
  "slot f (fst (applyExtraction s e)) = (case slot f e of None \<Rightarrow> slot f s | Some v \<Rightarrow> Some v)"
  by (cases f) (auto simp: applyExtraction_def applyField_def split: option.splits)

lemma applyExtractions_snoc:
  "applyExtractions s (es @ [e]) = fst (applyExtraction (applyExtractions s es) e)"
  by (simp add: applyExtractions_def)

lemma asserted_snoc:
  "asserted f (es @ [e]) = asserted f es @ (case slot f e of None \<Rightarrow> [] | Some v \<Rightarrow> [v])"
  by (simp add: asserted_def List.map_filter_def split: option.splits)

lemma applyExtractions_last:
  "slot f (applyExtractions s extractions) =
     (if asserted f extractions = [] then slot f s else Some (last (asserted f extractions)))"
proof (induction extractions rule: rev_induct)
  case Nil
  show ?case by (simp add: applyExtractions_def asserted_def List.map_filter_def)
next
  case (snoc e es)
  show ?case
  proof (cases "slot f e")
    case None
    with snoc show ?thesis
      by (simp add: applyExtractions_snoc slot_applyExtraction asserted_snoc)
  next
    case (Some v)
    then show ?thesis
      by (simp add: applyExtractions_snoc slot_applyExtraction asserted_snoc)
  qed
qed

text \<open>
  C2. For every slot field and every sequence of extraction results applied to a SlotSet,
  the stored value of the field is the last value the sequence asserts for it, however many
  times it was set before; a field that no extraction of the sequence mentions keeps the
  value it had.
\<close>

theorem last_assertion_wins:
  "slot f (applyExtractions s extractions) =
     (if asserted f extractions = [] then slot f s else Some (last (asserted f extractions)))
   \<and> (slot f extracted = None \<longrightarrow> slot f (fst (applyExtraction s extracted)) = slot f s)"
proof
  show "slot f (applyExtractions s extractions) =
     (if asserted f extractions = [] then slot f s else Some (last (asserted f extractions)))"
    by (rule applyExtractions_last)
  show "slot f extracted = None \<longrightarrow> slot f (fst (applyExtraction s extracted)) = slot f s"
    by (simp add: slot_applyExtraction)
qed

theorem last_assertion_wins_witness:
  "slot PartySize (applyExtractions emptySlots
      [emptySlots\<lparr>slotPartySize := Some 4\<rparr>, emptySlots\<lparr>slotTime := Some ''20:00''\<rparr>,
       emptySlots\<lparr>slotPartySize := Some 6\<rparr>]) = Some (Number 6)
   \<and> slot Time (applyExtractions emptySlots
      [emptySlots\<lparr>slotPartySize := Some 4\<rparr>, emptySlots\<lparr>slotTime := Some ''20:00''\<rparr>,
       emptySlots\<lparr>slotPartySize := Some 6\<rparr>]) = Some (Text ''20:00'')
   \<and> slot Date (applyExtractions emptySlots
      [emptySlots\<lparr>slotPartySize := Some 4\<rparr>, emptySlots\<lparr>slotTime := Some ''20:00''\<rparr>,
       emptySlots\<lparr>slotPartySize := Some 6\<rparr>]) = None
   \<and> slot Date (fst (applyExtraction (emptySlots\<lparr>slotDate := Some ''friday''\<rparr>)
        (emptySlots\<lparr>slotPartySize := Some 4\<rparr>))) = Some (Text ''friday'')"
proof -
  let ?es = "[emptySlots\<lparr>slotPartySize := Some 4\<rparr>, emptySlots\<lparr>slotTime := Some ''20:00''\<rparr>,
       emptySlots\<lparr>slotPartySize := Some 6\<rparr>]"
  have a: "asserted PartySize ?es = [Number 4, Number 6]"
    "asserted Time ?es = [Text ''20:00'']" "asserted Date ?es = []"
    by (simp_all add: asserted_def List.map_filter_def emptySlots_def)
  have b: "slot Date (emptySlots\<lparr>slotPartySize := Some 4\<rparr>) = None"
    by (simp add: emptySlots_def)
  from last_assertion_wins [of PartySize emptySlots ?es]
       last_assertion_wins [of Time emptySlots ?es]
       last_assertion_wins [of Date emptySlots ?es]
       last_assertion_wins [of Date "emptySlots\<lparr>slotDate := Some ''friday''\<rparr>" "[]"
         "emptySlots\<lparr>slotPartySize := Some 4\<rparr>"] a b
  show ?thesis by (simp add: emptySlots_def)
qed

text \<open>The scenario of the specification: 4, then 6, is marked as a correction.\<close>

lemma correction_is_marked:
  "snd (applyExtraction (emptySlots\<lparr>slotPartySize := Some 4\<rparr>)
          (emptySlots\<lparr>slotPartySize := Some 6\<rparr>)) = [(PartySize, Corrected)]"
  by (simp add: applyExtraction_def fieldChange_def emptySlots_def)

subsection \<open>Filler utterances\<close>

text \<open>
  C7. Processing an utterance composed only of stoplisted filler tokens changes nothing:
  the session, and with it the SlotSet, is unchanged, and the detector returns the prior
  label with the prior confidence.
\<close>

theorem filler_changes_nothing:
  assumes "fillerOnly stoplist utterance"
  shows "processUtterance stoplist classify extract s utterance = s
         \<and> slots (processUtterance stoplist classify extract s utterance) = slots s
         \<and> detect stoplist classify utterance priorLabel priorConfidence
             = (priorLabel, priorConfidence)"
  using assms by (simp add: processUtterance_def detect_def)

theorem filler_changes_nothing_witness:
  "fillerOnly example_stoplist ''hmm  okay haan''
   \<and> processUtterance example_stoplist (\<lambda>t l c. (English, 90))
        (\<lambda>t. emptySlots\<lparr>slotPartySize := Some 2\<rparr>)
        \<lparr>slots = emptySlots\<lparr>slotPartySize := Some 4\<rparr>, languagePreference = Some Hindi,
         languageConfidence = 88, observing = False\<rparr> ''hmm  okay haan''
      = \<lparr>slots = emptySlots\<lparr>slotPartySize := Some 4\<rparr>, languagePreference = Some Hindi,
         languageConfidence = 88, observing = False\<rparr>
   \<and> detect example_stoplist (\<lambda>t l c. (English, 90)) ''hmm  okay haan'' (Some Hindi) 88
      = (Some Hindi, 88)"
proof -
  have f: "fillerOnly example_stoplist ''hmm  okay haan''"
    by (simp add: fillerOnly_def tokens_def example_stoplist_def)
  from filler_changes_nothing [OF f] f show ?thesis by simp
qed

text \<open>An utterance with other content is processed.\<close>

lemma substantive_utterance_is_processed:
  "processUtterance example_stoplist (\<lambda>t l c. (English, 90))
        (\<lambda>t. emptySlots\<lparr>slotPartySize := Some 2\<rparr>)
        \<lparr>slots = emptySlots\<lparr>slotPartySize := Some 4\<rparr>, languagePreference = Some Hindi,
         languageConfidence = 88, observing = False\<rparr> ''haan 2 log''
      = \<lparr>slots = emptySlots\<lparr>slotPartySize := Some 2\<rparr>, languagePreference = Some English,
         languageConfidence = 90, observing = False\<rparr>"
  by (simp add: processUtterance_def fillerOnly_def tokens_def example_stoplist_def
                detect_def adoptLabel_def applyExtraction_def applyField_def emptySlots_def)


subsection \<open>Availability: the first failing check decides\<close>

text \<open>In a list of checks the first one that fails decides, whatever follows it.\<close>

lemma firstFailure_all_pass: "list_all fst checks \<Longrightarrow> firstFailure checks = None"
  by (induction checks rule: firstFailure.induct) auto

lemma firstFailure_first:
  "list_all fst passed \<Longrightarrow> firstFailure (passed @ (False, code) # later) = Some code"
  by (induction passed rule: firstFailure.induct) auto

text \<open>
  C1. For every rule set, list of existing bookings, date, time and party size (and every
  current time), the result of \<open>check\<close> is decided by the first of the five checks that
  fails, in the order closed, operating hours, advance bounds, party size, capacity,
  whatever the later checks would say: the rejection is \<open>RejectedClosed\<close>,
  \<open>RejectedOutsideHours\<close>, \<open>RejectedTooSoon\<close>, \<open>RejectedPartyTooLarge\<close> or
  \<open>RejectedCapacity\<close> (with its suggestions). When every check passes the result is
  \<open>Available\<close>, and in every case the bookings are left as they were.
\<close>

theorem check_first_failing:
  "(\<not> openOn rules date \<longrightarrow>
      fst (check now rules existingBookings date time partySize) = Rejected RejectedClosed [])
   \<and> (openOn rules date \<and> \<not> withinHours rules date time \<longrightarrow>
      fst (check now rules existingBookings date time partySize)
        = Rejected RejectedOutsideHours [])
   \<and> (openOn rules date \<and> withinHours rules date time
        \<and> \<not> withinAdvance rules now date time \<longrightarrow>
      fst (check now rules existingBookings date time partySize) = Rejected RejectedTooSoon [])
   \<and> (openOn rules date \<and> withinHours rules date time \<and> withinAdvance rules now date time
        \<and> \<not> partyAllowed rules time partySize \<longrightarrow>
      fst (check now rules existingBookings date time partySize)
        = Rejected RejectedPartyTooLarge [])
   \<and> (openOn rules date \<and> withinHours rules date time \<and> withinAdvance rules now date time
        \<and> partyAllowed rules time partySize
        \<and> \<not> fits rules existingBookings time partySize \<longrightarrow>
      fst (check now rules existingBookings date time partySize)
        = Rejected RejectedCapacity (suggestions rules existingBookings time partySize))
   \<and> (openOn rules date \<and> withinHours rules date time \<and> withinAdvance rules now date time
        \<and> partyAllowed rules time partySize \<and> fits rules existingBookings time partySize \<longrightarrow>
      fst (check now rules existingBookings date time partySize) = Available)
   \<and> snd (check now rules existingBookings date time partySize) = existingBookings"
proof -
  let ?c1 = "(openOn rules date, RejectedClosed)"
  let ?c2 = "(withinHours rules date time, RejectedOutsideHours)"
  let ?c3 = "(withinAdvance rules now date time, RejectedTooSoon)"
  let ?c4 = "(partyAllowed rules time partySize, RejectedPartyTooLarge)"
  let ?c5 = "(fits rules existingBookings time partySize, RejectedCapacity)"
  let ?result = "fst (check now rules existingBookings date time partySize)"
  have result: "?result =
      (case firstFailure [?c1, ?c2, ?c3, ?c4, ?c5] of
         None \<Rightarrow> Available
       | Some RejectedCapacity \<Rightarrow>
           Rejected RejectedCapacity (suggestions rules existingBookings time partySize)
       | Some code \<Rightarrow> Rejected code [])"
    by (simp add: check_def)
  have closed: "?result = Rejected RejectedClosed []" if "\<not> openOn rules date"
    using that firstFailure_first [of "[]" RejectedClosed "[?c2, ?c3, ?c4, ?c5]"]
    by (simp add: result)
  have hours: "?result = Rejected RejectedOutsideHours []"
    if "openOn rules date" "\<not> withinHours rules date time"
    using that firstFailure_first [of "[?c1]" RejectedOutsideHours "[?c3, ?c4, ?c5]"]
    by (simp add: result)
  have advance: "?result = Rejected RejectedTooSoon []"
    if "openOn rules date" "withinHours rules date time" "\<not> withinAdvance rules now date time"
    using that firstFailure_first [of "[?c1, ?c2]" RejectedTooSoon "[?c4, ?c5]"]
    by (simp add: result)
  have party: "?result = Rejected RejectedPartyTooLarge []"
    if "openOn rules date" "withinHours rules date time" "withinAdvance rules now date time"
       "\<not> partyAllowed rules time partySize"
    using that firstFailure_first [of "[?c1, ?c2, ?c3]" RejectedPartyTooLarge "[?c5]"]
    by (simp add: result)
  have capacity:
    "?result = Rejected RejectedCapacity (suggestions rules existingBookings time partySize)"
    if "openOn rules date" "withinHours rules date time" "withinAdvance rules now date time"
       "partyAllowed rules time partySize" "\<not> fits rules existingBookings time partySize"
    using that firstFailure_first [of "[?c1, ?c2, ?c3, ?c4]" RejectedCapacity "[]"]
    by (simp add: result)
  have available: "?result = Available"
    if "openOn rules date" "withinHours rules date time" "withinAdvance rules now date time"
       "partyAllowed rules time partySize" "fits rules existingBookings time partySize"
    using that firstFailure_all_pass [of "[?c1, ?c2, ?c3, ?c4, ?c5]"]
    by (simp add: result)
  have unchanged: "snd (check now rules existingBookings date time partySize) = existingBookings"
    by (simp add: check_def)
  from closed hours advance party capacity available unchanged show ?thesis by blast
qed

text \<open>
  The scenarios of the specification, with day 7 a Monday and day 8 a Tuesday: \<open>1200\<close> is
  20:00 and \<open>1380\<close> is 23:00; the current time is 15:20 of day 7, or 19:40 of day 8.
\<close>

lemma scenario_weekdays: "weekdayOf 7 = Monday" "weekdayOf 8 = Tuesday"
  by (simp_all add: weekdayOf_def)

lemma scenario_open: "\<not> openOn scenarioRules 7" "openOn scenarioRules 8"
  by (simp_all add: openOn_def scenarioRules_def scenario_weekdays)

lemma scenario_hours:
  "withinHours scenarioRules 8 1200" "\<not> withinHours scenarioRules 8 1380"
  by (simp_all add: withinHours_def scenarioRules_def scenario_weekdays)

lemma scenario_advance:
  "withinAdvance scenarioRules 11000 8 1200" "\<not> withinAdvance scenarioRules 12700 8 1200"
  by (simp_all add: withinAdvance_def scenarioRules_def)

lemma scenario_party:
  "partyAllowed scenarioRules 1200 4" "\<not> partyAllowed scenarioRules 1200 8"
  "\<not> partyAllowed scenarioRules 1200 50"
  by (simp_all add: partyAllowed_def inPeak_def scenarioRules_def)

lemma scenario_seats:
  "seatsTaken scenarioRules scenarioBookings 1200 = 38"
  "seatsTaken scenarioRules scenarioBookings 1170 = 38"
  "seatsTaken scenarioRules scenarioBookings 1140 = 38"
  "seatsTaken scenarioRules scenarioBookings 1110 = 38"
  "seatsTaken scenarioRules scenarioBookings 1080 = 0"
  "seatsTaken scenarioRules scenarioBookings 1230 = 38"
  "seatsTaken scenarioRules scenarioBookings 1260 = 38"
  "seatsTaken scenarioRules scenarioBookings 1290 = 38"
  "seatsTaken scenarioRules scenarioBookings 1320 = 0"
  by (simp_all add: seatsTaken_def overlaps_def scenarioRules_def scenarioBookings_def)

lemma scenario_fits:
  "fits scenarioRules [] 1200 4" "\<not> fits scenarioRules scenarioBookings 1200 4"
  "\<not> fits scenarioRules scenarioBookings 1170 4" "\<not> fits scenarioRules scenarioBookings 1140 4"
  "\<not> fits scenarioRules scenarioBookings 1110 4" "fits scenarioRules scenarioBookings 1080 4"
  "\<not> fits scenarioRules scenarioBookings 1230 4" "\<not> fits scenarioRules scenarioBookings 1260 4"
  "\<not> fits scenarioRules scenarioBookings 1290 4" "fits scenarioRules scenarioBookings 1320 4"
  by (simp_all add: fits_def scenario_seats)
     (simp_all add: seatsTaken_def scenarioRules_def)

lemma scenario_suggestions: "suggestions scenarioRules scenarioBookings 1200 4 = [1080, 1320]"
  by (simp add: suggestions_def scenario_fits)

theorem check_first_failing_witness:
  "fst (check 11000 scenarioRules [] 8 1200 4) = Available
   \<and> fst (check 11000 scenarioRules [] 7 1200 4) = Rejected RejectedClosed []
   \<and> fst (check 11000 scenarioRules [] 7 1380 50) = Rejected RejectedClosed []
   \<and> fst (check 11000 scenarioRules [] 8 1380 50) = Rejected RejectedOutsideHours []
   \<and> fst (check 12700 scenarioRules scenarioBookings 8 1200 50) = Rejected RejectedTooSoon []
   \<and> fst (check 11000 scenarioRules scenarioBookings 8 1200 8) = Rejected RejectedPartyTooLarge []
   \<and> fst (check 11000 scenarioRules scenarioBookings 8 1200 4)
       = Rejected RejectedCapacity [1080, 1320]
   \<and> snd (check 11000 scenarioRules scenarioBookings 8 1200 4) = scenarioBookings"
proof -
  have 1: "fst (check 11000 scenarioRules [] 8 1200 4) = Available"
    using check_first_failing [of scenarioRules 8 11000 "[]" 1200 4]
    by (simp add: scenario_open scenario_hours scenario_advance scenario_party scenario_fits)
  have 2: "fst (check 11000 scenarioRules [] 7 1200 4) = Rejected RejectedClosed []"
    using check_first_failing [of scenarioRules 7 11000 "[]" 1200 4]
    by (simp add: scenario_open)
  have 3: "fst (check 11000 scenarioRules [] 7 1380 50) = Rejected RejectedClosed []"
    using check_first_failing [of scenarioRules 7 11000 "[]" 1380 50]
    by (simp add: scenario_open)
  have 4: "fst (check 11000 scenarioRules [] 8 1380 50) = Rejected RejectedOutsideHours []"
    using check_first_failing [of scenarioRules 8 11000 "[]" 1380 50]
    by (simp add: scenario_open scenario_hours)
  have 5: "fst (check 12700 scenarioRules scenarioBookings 8 1200 50)
             = Rejected RejectedTooSoon []"
    using check_first_failing [of scenarioRules 8 12700 scenarioBookings 1200 50]
    by (simp add: scenario_open scenario_hours scenario_advance)
  have 6: "fst (check 11000 scenarioRules scenarioBookings 8 1200 8)
             = Rejected RejectedPartyTooLarge []"
    using check_first_failing [of scenarioRules 8 11000 scenarioBookings 1200 8]
    by (simp add: scenario_open scenario_hours scenario_advance scenario_party)
  have 7: "fst (check 11000 scenarioRules scenarioBookings 8 1200 4)
             = Rejected RejectedCapacity [1080, 1320]"
    using check_first_failing [of scenarioRules 8 11000 scenarioBookings 1200 4]
    by (simp add: scenario_open scenario_hours scenario_advance scenario_party scenario_fits
                  scenario_suggestions)
  have 8: "snd (check 11000 scenarioRules scenarioBookings 8 1200 4) = scenarioBookings"
    using check_first_failing [of scenarioRules 8 11000 scenarioBookings 1200 4] by simp
  from 1 2 3 4 5 6 7 8 show ?thesis by simp
qed

end
